theory Spec2Isabelle
  imports Complex_Main "HOL-Library.Word"
begin

section \<open>The AE483 controller (controller\_custom\_lqr.c)\<close>

text \<open>
  The controller is one C file: a set of file-level \<^verbatim>\<open>static\<close> variables, two sensor
  callbacks that write to them, and the control function \<^verbatim>\<open>controllerAE483\<close> that the
  stabiliser calls on every tick.

  The C type \<^verbatim>\<open>float\<close> is the type variable \<open>'f\<close>. Its arithmetic is written with the
  operators of the classes \<open>plus\<close>, \<open>minus\<close>, \<open>uminus\<close>, \<open>times\<close>, \<open>inverse\<close> and
  \<open>zero\<close>, which carry no axioms: every theorem stated for such an \<open>'f\<close> holds for any
  arithmetic whatever, rounding, infinities and NaN included. Where a theorem needs laws
  of arithmetic, its type says so (\<open>'f :: {ring, inverse}\<close>), and where it needs the
  order of the values, \<open>'f\<close> is the type of the real numbers.
\<close>

subsection \<open>Types of the firmware interface\<close>

text \<open>
  The structs of \<^verbatim>\<open>stabilizer_types.h\<close>, with the members the controller reads. A vector
  of three members \<^verbatim>\<open>x\<close>, \<^verbatim>\<open>y\<close>, \<^verbatim>\<open>z\<close> is one record, used at \<open>'f\<close> for positions,
  velocities, gyro and accelerometer samples, and at \<open>stab_mode_t\<close> for the per-axis
  modes of a setpoint.
\<close>

record 'a xyz =
  x :: 'a
  y :: 'a
  z :: 'a

text \<open>The controller compares a mode with \<^verbatim>\<open>modeDisable\<close> only.\<close>

datatype stab_mode_t = modeDisable | modeAbs | modeVelocity

record 'f attitude_t =
  roll :: 'f
  pitch :: 'f
  yaw :: 'f

record 'f setpoint_t =
  position :: "'f xyz"
  mode :: "stab_mode_t xyz"

record 'f sensorData_t =
  gyro :: "'f xyz"
  acc :: "'f xyz"

record 'f state_t =
  attitude :: "'f attitude_t"
  position :: "'f xyz"
  velocity :: "'f xyz"

record 'f tofMeasurement_t =
  distance :: 'f

record 'f flowMeasurement_t =
  dpixelx :: 'f
  dpixely :: 'f

text \<open>
  What the file takes from headers that are not part of it, as parameters:
  \<^item> \<open>flt q\<close> is the \<^verbatim>\<open>float\<close> that the compiler makes of the decimal literal \<open>q\<close>
    (\<^verbatim>\<open>4.09255568f\<close> is \<open>flt E 4.09255568\<close>); \<^verbatim>\<open>0.0f\<close> is \<open>0\<close>;
  \<^item> \<open>radians\<close> (math3d.h), \<open>cosf\<close> and \<open>sinf\<close> (the C library);
  \<^item> \<open>limitUint16\<close> (num.h), from a \<^verbatim>\<open>float\<close> argument to a \<^verbatim>\<open>uint16_t\<close>;
  \<^item> the macro \<open>RATE_DO_EXECUTE\<close> and the constant \<open>ATTITUDE_RATE\<close> (stabilizer\_types.h).
\<close>

record 'f firmware =
  flt :: "rat \<Rightarrow> 'f"
  radians :: "'f \<Rightarrow> 'f"
  cosf :: "'f \<Rightarrow> 'f"
  sinf :: "'f \<Rightarrow> 'f"
  limitUint16 :: "'f \<Rightarrow> 16 word"
  RATE_DO_EXECUTE :: "nat \<Rightarrow> 32 word \<Rightarrow> bool"
  ATTITUDE_RATE :: nat

subsection \<open>The static variables\<close>

text \<open>
  Lines 9 to 68 of the file, in the order of their declarations, but for the four
  constants of lines 60 to 63, which follow.
\<close>

record 'f globals =
  tof_count :: "16 word"
  tof_distance :: 'f
  flow_count :: "16 word"
  flow_dpixelx :: 'f
  flow_dpixely :: 'f
  use_observer :: bool
  reset_observer :: bool
  o_x :: 'f
  o_y :: 'f
  o_z :: 'f
  psi :: 'f
  theta :: 'f
  phi :: 'f
  v_x :: 'f
  v_y :: 'f
  v_z :: 'f
  w_x :: 'f
  w_y :: 'f
  w_z :: 'f
  o_x_des :: 'f
  o_y_des :: 'f
  o_z_des :: 'f
  tau_x :: 'f
  tau_y :: 'f
  tau_z :: 'f
  f_z :: 'f
  m_1 :: "16 word"
  m_2 :: "16 word"
  m_3 :: "16 word"
  m_4 :: "16 word"
  n_x :: 'f
  n_y :: 'f
  r :: 'f
  a_z :: 'f
  n_x_err :: 'f
  n_y_err :: 'f
  r_err :: 'f

text \<open>The initialisers of the declarations: the state of the file when the firmware starts.\<close>

definition globals_init :: "'f::zero globals" where
  "globals_init =
     \<lparr> tof_count = 0, tof_distance = 0,
       flow_count = 0, flow_dpixelx = 0, flow_dpixely = 0,
       use_observer = False, reset_observer = False,
       o_x = 0, o_y = 0, o_z = 0, psi = 0, theta = 0, phi = 0,
       v_x = 0, v_y = 0, v_z = 0, w_x = 0, w_y = 0, w_z = 0,
       o_x_des = 0, o_y_des = 0, o_z_des = 0,
       tau_x = 0, tau_y = 0, tau_z = 0, f_z = 0,
       m_1 = 0, m_2 = 0, m_3 = 0, m_4 = 0,
       n_x = 0, n_y = 0, r = 0, a_z = 0,
       n_x_err = 0, n_y_err = 0, r_err = 0 \<rparr>"

text \<open>
  Lines 60 to 63, under the comment \<^verbatim>\<open>// Constants\<close>: declared \<^verbatim>\<open>static float\<close>,
  assigned nowhere in the file and exported neither as a log variable nor as a parameter,
  so each keeps the value of its initialiser.
\<close>

definition k_flow :: "'f firmware \<Rightarrow> 'f" where
  "k_flow E = flt E 4.09255568"

definition g :: "'f firmware \<Rightarrow> 'f" where
  "g E = flt E 9.81"

definition dt :: "'f firmware \<Rightarrow> 'f" where
  "dt E = flt E 0.002"

definition o_z_eq :: "'f firmware \<Rightarrow> 'f" where
  "o_z_eq E = flt E 0.5"

subsection \<open>The sensor callbacks\<close>

text \<open>Lines 70 to 74. The counter is a \<^verbatim>\<open>uint16_t\<close>: \<^verbatim>\<open>tof_count++\<close> wraps at \<open>2 ^ 16\<close>.\<close>

definition ae483UpdateWithTOF :: "'f tofMeasurement_t \<Rightarrow> 'f globals \<Rightarrow> 'f globals" where
  "ae483UpdateWithTOF tof s =
     (let s1 = s\<lparr>tof_distance := distance tof\<rparr>;
          s2 = s1\<lparr>tof_count := tof_count s1 + 1\<rparr>
      in s2)"

text \<open>Lines 76 to 81.\<close>

definition ae483UpdateWithFlow :: "'f flowMeasurement_t \<Rightarrow> 'f globals \<Rightarrow> 'f globals" where
  "ae483UpdateWithFlow flow s =
     (let s1 = s\<lparr>flow_dpixelx := dpixelx flow\<rparr>;
          s2 = s1\<lparr>flow_dpixely := dpixely flow\<rparr>;
          s3 = s2\<lparr>flow_count := flow_count s2 + 1\<rparr>
      in s3)"

subsection \<open>The control function\<close>

text \<open>
  \<^verbatim>\<open>controllerAE483\<close> (lines 149 to 241) is one function; its body is cut here at the
  comments and branches of the source, one definition for each block, and one \<open>let\<close>
  binding for each assignment, in the order of the source.
\<close>

text \<open>Lines 158 to 170: the desired position and the measurements.\<close>

definition read_inputs ::
  "'f::times firmware \<Rightarrow> 'f setpoint_t \<Rightarrow> 'f sensorData_t \<Rightarrow> 'f globals \<Rightarrow> 'f globals" where
  "read_inputs E setpoint sensors s =
     (let s1 = s\<lparr>o_x_des := x (setpoint_t.position setpoint)\<rparr>;
          s2 = s1\<lparr>o_y_des := y (setpoint_t.position setpoint)\<rparr>;
          s3 = s2\<lparr>o_z_des := z (setpoint_t.position setpoint)\<rparr>;
          s4 = s3\<lparr>w_x := radians E (x (gyro sensors))\<rparr>;
          s5 = s4\<lparr>w_y := radians E (y (gyro sensors))\<rparr>;
          s6 = s5\<lparr>w_z := radians E (z (gyro sensors))\<rparr>;
          s7 = s6\<lparr>a_z := g E * z (acc sensors)\<rparr>;
          s8 = s7\<lparr>n_x := flow_dpixelx s7\<rparr>;
          s9 = s8\<lparr>n_y := flow_dpixely s8\<rparr>;
          s10 = s9\<lparr>r := tof_distance s9\<rparr>
      in s10)"

text \<open>Lines 172 to 183: the statement \<^verbatim>\<open>if (reset_observer) { ... }\<close>.\<close>

definition reset_block :: "'f::zero globals \<Rightarrow> 'f globals" where
  "reset_block s =
     (if reset_observer s then
        let s1 = s\<lparr>o_x := 0\<rparr>;
            s2 = s1\<lparr>o_y := 0\<rparr>;
            s3 = s2\<lparr>o_z := 0\<rparr>;
            s4 = s3\<lparr>psi := 0\<rparr>;
            s5 = s4\<lparr>theta := 0\<rparr>;
            s6 = s5\<lparr>phi := 0\<rparr>;
            s7 = s6\<lparr>v_x := 0\<rparr>;
            s8 = s7\<lparr>v_y := 0\<rparr>;
            s9 = s8\<lparr>v_z := 0\<rparr>;
            s10 = s9\<lparr>reset_observer := False\<rparr>
        in s10
      else s)"

text \<open>Lines 188 to 203: the branch \<^verbatim>\<open>use_observer\<close>, the custom observer.\<close>

definition observer_block ::
  "'f::{plus,minus,uminus,times,inverse} firmware \<Rightarrow> 'f globals \<Rightarrow> 'f globals" where
  "observer_block E s =
     (let s1 = s\<lparr>n_x_err := k_flow E * ((v_x s / o_z_eq E) - w_y s) - n_x s\<rparr>;
          s2 = s1\<lparr>n_y_err := k_flow E * (w_x s1 + (v_y s1 / o_z_eq E)) - n_y s1\<rparr>;
          s3 = s2\<lparr>r_err := o_z s2 - r s2\<rparr>;
          s4 = s3\<lparr>o_x := o_x s3 + dt E * v_x s3\<rparr>;
          s5 = s4\<lparr>o_y := o_y s4 + dt E * v_y s4\<rparr>;
          s6 = s5\<lparr>o_z := o_z s5 + dt E * (v_z s5 - flt E 3.524731 * r_err s5)\<rparr>;
          s7 = s6\<lparr>psi := psi s6 + dt E * w_z s6\<rparr>;
          s8 = s7\<lparr>theta := theta s7 + dt E * (w_y s7 - flt E 0.029925 * n_x_err s7)\<rparr>;
          s9 = s8\<lparr>phi := phi s8 + dt E * (w_x s8 - (- flt E 0.024252 * n_y_err s8))\<rparr>;
          s10 = s9\<lparr>v_x := v_x s9 + dt E * (g E * theta s9 - flt E 0.322134 * n_x_err s9)\<rparr>;
          s11 = s10\<lparr>v_y :=
                  v_y s10 + dt E * (- g E * phi s10 - flt E 0.317070 * n_y_err s10)\<rparr>;
          s12 = s11\<lparr>v_z := v_z s11 + dt E * (a_z s11 - g E - flt E 5.676619 * r_err s11)\<rparr>
      in s12)"

text \<open>Lines 207 to 215: the other branch, the estimate of the firmware's own estimator.\<close>

definition passthrough_block ::
  "'f::{plus,minus,uminus,times} firmware \<Rightarrow> 'f state_t \<Rightarrow> 'f globals \<Rightarrow> 'f globals" where
  "passthrough_block E state s =
     (let s1 = s\<lparr>o_x := x (state_t.position state)\<rparr>;
          s2 = s1\<lparr>o_y := y (state_t.position state)\<rparr>;
          s3 = s2\<lparr>o_z := z (state_t.position state)\<rparr>;
          s4 = s3\<lparr>psi := radians E (yaw (attitude state))\<rparr>;
          s5 = s4\<lparr>theta := - radians E (pitch (attitude state))\<rparr>;
          s6 = s5\<lparr>phi := radians E (roll (attitude state))\<rparr>;
          s7 = s6\<lparr>v_x :=
                 x (velocity state) * cosf E (psi s6) * cosf E (theta s6)
                 + y (velocity state) * sinf E (psi s6) * cosf E (theta s6)
                 - z (velocity state) * sinf E (theta s6)\<rparr>;
          s8 = s7\<lparr>v_y :=
                 x (velocity state)
                   * (sinf E (phi s7) * sinf E (theta s7) * cosf E (psi s7)
                      - sinf E (psi s7) * cosf E (phi s7))
                 + y (velocity state)
                   * (sinf E (phi s7) * sinf E (psi s7) * sinf E (theta s7)
                      + cosf E (phi s7) * cosf E (psi s7))
                 + z (velocity state) * sinf E (phi s7) * cosf E (theta s7)\<rparr>;
          s9 = s8\<lparr>v_z :=
                 x (velocity state)
                   * (sinf E (phi s8) * sinf E (psi s8)
                      + sinf E (theta s8) * cosf E (phi s8) * cosf E (psi s8))
                 + y (velocity state)
                   * (- sinf E (phi s8) * cosf E (psi s8)
                      + sinf E (psi s8) * sinf E (theta s8) * cosf E (phi s8))
                 + z (velocity state) * cosf E (phi s8) * cosf E (theta s8)\<rparr>
      in s9)"

text \<open>Lines 227 to 230: the control effort.\<close>

definition effort_block ::
  "'f::{plus,minus,uminus,times} firmware \<Rightarrow> 'f globals \<Rightarrow> 'f globals" where
  "effort_block E s =
     (let s1 = s\<lparr>tau_x :=
                 flt E 0.00239430 * (o_y s - o_y_des s) - flt E 0.00346463 * phi s
                 + flt E 0.00135445 * v_y s - flt E 0.00047651 * w_x s\<rparr>;
          s2 = s1\<lparr>tau_y :=
                 - flt E 0.00223966 * (o_x s1 - o_x_des s1) - flt E 0.00734151 * theta s1
                 - flt E 0.00186963 * v_x s1 - flt E 0.00129356 * w_y s1\<rparr>;
          s3 = s2\<lparr>tau_z := - flt E 0.00164210 * psi s2 - flt E 0.00039822 * w_z s2\<rparr>;
          s4 = s3\<lparr>f_z :=
                 - flt E 0.11471886 * (o_z s3 - o_z_des s3) - flt E 0.09147906 * v_z s3
                 + flt E 0.35217900\<rparr>
      in s4)"

text \<open>
  Lines 232 to 235: the raw value of each motor, a row of the mixing matrix applied to
  the control effort, and the motor power commands.
\<close>

definition raw_1 :: "'f::{plus,minus,uminus,times} firmware \<Rightarrow> 'f globals \<Rightarrow> 'f" where
  "raw_1 E s =
     - flt E 3706927.3 * tau_x s - flt E 3706927.3 * tau_y s
     - flt E 38218981.7 * tau_z s + flt E 122328.6 * f_z s"

definition raw_2 :: "'f::{plus,minus,uminus,times} firmware \<Rightarrow> 'f globals \<Rightarrow> 'f" where
  "raw_2 E s =
     - flt E 3706927.3 * tau_x s + flt E 3706927.3 * tau_y s
     + flt E 38218981.7 * tau_z s + flt E 122328.6 * f_z s"

definition raw_3 :: "'f::{plus,minus,uminus,times} firmware \<Rightarrow> 'f globals \<Rightarrow> 'f" where
  "raw_3 E s =
     flt E 3706927.3 * tau_x s + flt E 3706927.3 * tau_y s
     - flt E 38218981.7 * tau_z s + flt E 122328.6 * f_z s"

definition raw_4 :: "'f::{plus,minus,uminus,times} firmware \<Rightarrow> 'f globals \<Rightarrow> 'f" where
  "raw_4 E s =
     flt E 3706927.3 * tau_x s - flt E 3706927.3 * tau_y s
     + flt E 38218981.7 * tau_z s + flt E 122328.6 * f_z s"

definition mixer_block ::
  "'f::{plus,minus,uminus,times} firmware \<Rightarrow> 'f globals \<Rightarrow> 'f globals" where
  "mixer_block E s =
     (let s1 = s\<lparr>m_1 := limitUint16 E (raw_1 E s)\<rparr>;
          s2 = s1\<lparr>m_2 := limitUint16 E (raw_2 E s1)\<rparr>;
          s3 = s2\<lparr>m_3 := limitUint16 E (raw_3 E s2)\<rparr>;
          s4 = s3\<lparr>m_4 := limitUint16 E (raw_4 E s3)\<rparr>
      in s4)"

text \<open>Lines 186 to 216: the two branches of \<^verbatim>\<open>if (use_observer)\<close>.\<close>

definition integrate_block ::
  "'f::{plus,minus,uminus,times,inverse} firmware \<Rightarrow> 'f state_t \<Rightarrow> 'f globals \<Rightarrow> 'f globals" where
  "integrate_block E state s =
     (if use_observer s then observer_block E s else passthrough_block E state s)"

text \<open>
  Lines 218 to 239. The effect of the function on the actuators is its call of
  \<^verbatim>\<open>powerSet\<close>: the block returns the new state of the static variables and the
  arguments of that call.
\<close>

type_synonym power = "16 word \<times> 16 word \<times> 16 word \<times> 16 word"

definition command_block ::
  "'f::{plus,minus,uminus,times} firmware \<Rightarrow> 'f setpoint_t \<Rightarrow> 'f globals
     \<Rightarrow> 'f globals \<times> power option" where
  "command_block E setpoint s =
     (if z (mode setpoint) = modeDisable then (s, Some (0, 0, 0, 0))
      else
        let s1 = effort_block E s;
            s2 = mixer_block E s1
        in (s2, Some (m_1 s2, m_2 s2, m_3 s2, m_4 s2)))"

text \<open>
  The function: the blocks in the order of the source, under the rate gate of line 155.
  The second component is \<open>None\<close> when the function returns without calling
  \<^verbatim>\<open>powerSet\<close>.
\<close>

definition controllerAE483 ::
  "'f::{plus,minus,uminus,times,inverse,zero} firmware \<Rightarrow> 'f setpoint_t \<Rightarrow> 'f sensorData_t
     \<Rightarrow> 'f state_t \<Rightarrow> 32 word \<Rightarrow> 'f globals \<Rightarrow> 'f globals \<times> power option" where
  "controllerAE483 E setpoint sensors state tick s =
     (if RATE_DO_EXECUTE E (ATTITUDE_RATE E) tick then
        let s1 = read_inputs E setpoint sensors s;
            s2 = reset_block s1;
            s3 = integrate_block E state s2
        in command_block E setpoint s3
      else (s, None))"

subsection \<open>Sequences of calls\<close>

text \<open>
  The firmware calls the three entry points in any order: the sensor callbacks when a
  sample arrives, the control function on every tick of the stabiliser.
\<close>

datatype 'f call =
  TOF "'f tofMeasurement_t"
  | Flow "'f flowMeasurement_t"
  | Control "'f setpoint_t" "'f sensorData_t" "'f state_t" "32 word"

fun call_step ::
  "'f::{plus,minus,uminus,times,inverse,zero} firmware \<Rightarrow> 'f call \<Rightarrow> 'f globals \<Rightarrow> 'f globals" where
  "call_step E (TOF tof) s = ae483UpdateWithTOF tof s"
| "call_step E (Flow flow) s = ae483UpdateWithFlow flow s"
| "call_step E (Control setpoint sensors state tick) s =
     fst (controllerAE483 E setpoint sensors state tick s)"

fun run ::
  "'f::{plus,minus,uminus,times,inverse,zero} firmware \<Rightarrow> 'f call list \<Rightarrow> 'f globals \<Rightarrow> 'f globals" where
  "run E [] s = s"
| "run E (c # cs) s = run E cs (call_step E c s)"

text \<open>A call that computes a control effort: a tick that runs with the z axis enabled.\<close>

fun computes_effort :: "'f firmware \<Rightarrow> 'f call \<Rightarrow> bool" where
  "computes_effort E (Control setpoint sensors state tick) =
     (RATE_DO_EXECUTE E (ATTITUDE_RATE E) tick \<and> z (mode setpoint) \<noteq> modeDisable)"
| "computes_effort E _ = False"

text \<open>The number of calls of each sensor callback in a sequence.\<close>

fun tof_calls :: "'f call list \<Rightarrow> nat" where
  "tof_calls [] = 0"
| "tof_calls (TOF tof # cs) = Suc (tof_calls cs)"
| "tof_calls (c # cs) = tof_calls cs"

fun flow_calls :: "'f call list \<Rightarrow> nat" where
  "flow_calls [] = 0"
| "flow_calls (Flow flow # cs) = Suc (flow_calls cs)"
| "flow_calls (c # cs) = flow_calls cs"

subsection \<open>Views of the state\<close>

text \<open>
  The state estimate: position, attitude, linear velocity and angular velocity, the
  twelve variables under the comment \<^verbatim>\<open>// State\<close> (lines 23 to 34).
\<close>

definition estimate_of ::
  "'f globals \<Rightarrow> ('f \<times> 'f \<times> 'f) \<times> ('f \<times> 'f \<times> 'f) \<times> ('f \<times> 'f \<times> 'f) \<times> ('f \<times> 'f \<times> 'f)" where
  "estimate_of s =
     ((o_x s, o_y s, o_z s), (psi s, theta s, phi s), (v_x s, v_y s, v_z s),
      (w_x s, w_y s, w_z s))"

text \<open>
  The control effort and the motor power commands that the file keeps (lines 42 to 51)
  and exports to the log.
\<close>

definition stored_commands :: "'f globals \<Rightarrow> ('f \<times> 'f \<times> 'f \<times> 'f) \<times> power" where
  "stored_commands s = ((tau_x s, tau_y s, tau_z s, f_z s), (m_1 s, m_2 s, m_3 s, m_4 s))"

subsection \<open>The forward Euler step of the specification\<close>

text \<open>
  The observer as the specification describes it (4.2): every one of the nine integrated
  variables advances by \<open>dt\<close> times its derivative, and every derivative is evaluated on
  the values of the previous tick. The derivatives and the residuals are those of lines
  190 to 203; all right-hand sides read the state \<open>s\<close> that enters the step.
\<close>

definition forward_euler_step ::
  "'f::{plus,minus,uminus,times,inverse} firmware \<Rightarrow> 'f globals \<Rightarrow> 'f globals" where
  "forward_euler_step E s =
     (let ex = k_flow E * ((v_x s / o_z_eq E) - w_y s) - n_x s;
          ey = k_flow E * (w_x s + (v_y s / o_z_eq E)) - n_y s;
          er = o_z s - r s
      in s\<lparr>n_x_err := ex, n_y_err := ey, r_err := er,
           o_x := o_x s + dt E * v_x s,
           o_y := o_y s + dt E * v_y s,
           o_z := o_z s + dt E * (v_z s - flt E 3.524731 * er),
           psi := psi s + dt E * w_z s,
           theta := theta s + dt E * (w_y s - flt E 0.029925 * ex),
           phi := phi s + dt E * (w_x s - (- flt E 0.024252 * ey)),
           v_x := v_x s + dt E * (g E * theta s - flt E 0.322134 * ex),
           v_y := v_y s + dt E * (- g E * phi s - flt E 0.317070 * ey),
           v_z := v_z s + dt E * (a_z s - g E - flt E 5.676619 * er)\<rparr>)"

subsection \<open>An instance of the parameters\<close>

text \<open>C converts a floating value to an integer by dropping the fraction.\<close>

definition c_trunc :: "real \<Rightarrow> int" where
  "c_trunc v = (if v < 0 then \<lceil>v\<rceil> else \<lfloor>v\<rfloor>)"

text \<open>
  Modelled from the spec: \<^verbatim>\<open>limitUint16\<close> is declared in num.h, which is not among the
  sources. The spec (4.4) has the mixer clamp each raw value "to the valid unsigned
  command range (values outside range are saturated, not wrapped or rejected)", the range
  being that of the 16-bit motor command, 0 to 65535. The raw value is compared with the
  two ends of the range as the number that it is; within the range the command is the
  integer that C makes of it.
\<close>

definition limitUint16_spec :: "real \<Rightarrow> 16 word" where
  "limitUint16_spec v =
     (if v < 0 then 0
      else if 65535 < v then 65535
      else word_of_int (c_trunc v))"

text \<open>
  The instance at which the theorems below are evaluated: exact arithmetic on the reals,
  the literals at their decimal values, \<^verbatim>\<open>radians\<close> as the firmware's math3d.h has it
  (\<open>pi / 180\<close> times the degrees), and the stabiliser's rate gate: the main loop runs at
  1000 Hz, the attitude rate is 500 Hz, and a rate executes on the ticks that its period
  divides.
\<close>

definition exact :: "real firmware" where
  "exact =
     \<lparr> flt = of_rat,
       radians = (\<lambda>d. (pi / 180) * d),
       cosf = cos,
       sinf = sin,
       limitUint16 = limitUint16_spec,
       RATE_DO_EXECUTE = (\<lambda>rate tick. unat tick mod (1000 div rate) = 0),
       ATTITUDE_RATE = 500 \<rparr>"

text \<open>Inputs at which the theorems are evaluated.\<close>

definition setpoint_at :: "stab_mode_t \<Rightarrow> real \<Rightarrow> real \<Rightarrow> real \<Rightarrow> real setpoint_t" where
  "setpoint_at m px py pz =
     \<lparr> setpoint_t.position = \<lparr>x = px, y = py, z = pz\<rparr>,
       mode = \<lparr>x = modeAbs, y = modeAbs, z = m\<rparr> \<rparr>"

definition sensors_at :: "real \<Rightarrow> real \<Rightarrow> real \<Rightarrow> real sensorData_t" where
  "sensors_at gx gy gz = \<lparr> gyro = \<lparr>x = gx, y = gy, z = gz\<rparr>, acc = \<lparr>x = 0, y = 0, z = 1\<rparr> \<rparr>"

definition state_at :: "real \<Rightarrow> real \<Rightarrow> real \<Rightarrow> real state_t" where
  "state_at px py pz =
     \<lparr> attitude = \<lparr>roll = 0, pitch = 0, yaw = 0\<rparr>,
       state_t.position = \<lparr>x = px, y = py, z = pz\<rparr>,
       velocity = \<lparr>x = 0, y = 0, z = 0\<rparr> \<rparr>"

definition quiet_calls :: "real call list" where
  "quiet_calls =
     [TOF \<lparr>distance = 1\<rparr>,
      Control (setpoint_at modeDisable 0 0 1) (sensors_at 0 0 0) (state_at 0 0 2) 2,
      Flow \<lparr>dpixelx = 1, dpixely = 1\<rparr>,
      Control (setpoint_at modeAbs 0 0 1) (sensors_at 0 0 0) (state_at 0 0 2) 3]"

text \<open>
  States at which the theorems are evaluated: the observer switched on; the same after
  one flow sample has been recorded; the observer on with the altitude estimate at 1.
\<close>

definition observing :: "real globals" where
  "observing = globals_init\<lparr>use_observer := True\<rparr>"

definition flow_seen :: "real globals" where
  "flow_seen = ae483UpdateWithFlow \<lparr>dpixelx = 1, dpixely = 0\<rparr> observing"

definition climbed :: "real globals" where
  "climbed = observing\<lparr>o_z := 1\<rparr>"

section \<open>Facts about the blocks\<close>

lemma gate_exact: "RATE_DO_EXECUTE exact (ATTITUDE_RATE exact) 0"
  by (simp add: exact_def)

lemma reset_observer_read_inputs [simp]:
  "reset_observer (read_inputs E sp sens s) = reset_observer s"
  by (simp add: read_inputs_def Let_def)

lemma use_observer_read_inputs [simp]:
  "use_observer (read_inputs E sp sens s) = use_observer s"
  by (simp add: read_inputs_def Let_def)

lemma reset_observer_reset_block [simp]: "\<not> reset_observer (reset_block s)"
  by (simp add: reset_block_def Let_def)

lemma use_observer_reset_block [simp]: "use_observer (reset_block s) = use_observer s"
  by (simp add: reset_block_def Let_def)

lemma reset_block_idle: "\<not> reset_observer s \<Longrightarrow> reset_block s = s"
  by (simp add: reset_block_def)

lemma reset_block_zeroes:
  "reset_observer s \<Longrightarrow>
     reset_block s =
       s\<lparr>o_x := 0, o_y := 0, o_z := 0, psi := 0, theta := 0, phi := 0,
         v_x := 0, v_y := 0, v_z := 0, reset_observer := False\<rparr>"
  by (simp add: reset_block_def Let_def)

lemma reset_observer_observer_block [simp]:
  "reset_observer (observer_block E s) = reset_observer s"
  by (simp add: observer_block_def Let_def)

lemma reset_observer_passthrough_block [simp]:
  "reset_observer (passthrough_block E st s) = reset_observer s"
  by (simp add: passthrough_block_def Let_def)

lemma reset_observer_integrate_block [simp]:
  "reset_observer (integrate_block E st s) = reset_observer s"
  by (simp add: integrate_block_def)

lemma reset_observer_effort_block [simp]:
  "reset_observer (effort_block E s) = reset_observer s"
  by (simp add: effort_block_def Let_def)

lemma reset_observer_mixer_block [simp]:
  "reset_observer (mixer_block E s) = reset_observer s"
  by (simp add: mixer_block_def Let_def)

lemma reset_observer_command_block [simp]:
  "reset_observer (fst (command_block E sp s)) = reset_observer s"
  by (simp add: command_block_def Let_def)

lemma command_block_disabled:
  "z (mode sp) = modeDisable \<Longrightarrow> command_block E sp s = (s, Some (0, 0, 0, 0))"
  by (simp add: command_block_def)

lemma controller_open_gate:
  fixes E :: "'f::{plus,minus,uminus,times,inverse,zero} firmware"
  assumes "RATE_DO_EXECUTE E (ATTITUDE_RATE E) tick"
  shows "controllerAE483 E sp sens st tick s =
    command_block E sp (integrate_block E st (reset_block (read_inputs E sp sens s)))"
  using assms by (simp add: controllerAE483_def Let_def)

lemma controller_closed_gate:
  fixes E :: "'f::{plus,minus,uminus,times,inverse,zero} firmware"
  assumes "\<not> RATE_DO_EXECUTE E (ATTITUDE_RATE E) tick"
  shows "controllerAE483 E sp sens st tick s = (s, None)"
  using assms by (simp add: controllerAE483_def)

text \<open>Each block as one simultaneous update of the state that enters it.\<close>

lemma exact_simps [simp]:
  "flt exact = of_rat"
  "radians exact = (\<lambda>d. (pi / 180) * d)"
  "cosf exact = cos"
  "sinf exact = sin"
  "limitUint16 exact = limitUint16_spec"
  by (simp_all add: exact_def)

lemma read_inputs_eq:
  "read_inputs E sp sens s =
     s\<lparr>o_x_des := x (setpoint_t.position sp), o_y_des := y (setpoint_t.position sp),
       o_z_des := z (setpoint_t.position sp),
       w_x := radians E (x (gyro sens)), w_y := radians E (y (gyro sens)),
       w_z := radians E (z (gyro sens)),
       a_z := g E * z (acc sens),
       n_x := flow_dpixelx s, n_y := flow_dpixely s, r := tof_distance s\<rparr>"
  by (simp add: read_inputs_def Let_def)

lemma passthrough_block_eq:
  "passthrough_block E st s =
     s\<lparr>o_x := x (state_t.position st), o_y := y (state_t.position st),
       o_z := z (state_t.position st),
       psi := radians E (yaw (attitude st)),
       theta := - radians E (pitch (attitude st)),
       phi := radians E (roll (attitude st)),
       v_x :=
         x (velocity st) * cosf E (radians E (yaw (attitude st)))
           * cosf E (- radians E (pitch (attitude st)))
         + y (velocity st) * sinf E (radians E (yaw (attitude st)))
           * cosf E (- radians E (pitch (attitude st)))
         - z (velocity st) * sinf E (- radians E (pitch (attitude st))),
       v_y :=
         x (velocity st)
           * (sinf E (radians E (roll (attitude st))) * sinf E (- radians E (pitch (attitude st)))
                * cosf E (radians E (yaw (attitude st)))
              - sinf E (radians E (yaw (attitude st))) * cosf E (radians E (roll (attitude st))))
         + y (velocity st)
           * (sinf E (radians E (roll (attitude st))) * sinf E (radians E (yaw (attitude st)))
                * sinf E (- radians E (pitch (attitude st)))
              + cosf E (radians E (roll (attitude st))) * cosf E (radians E (yaw (attitude st))))
         + z (velocity st) * sinf E (radians E (roll (attitude st)))
           * cosf E (- radians E (pitch (attitude st))),
       v_z :=
         x (velocity st)
           * (sinf E (radians E (roll (attitude st))) * sinf E (radians E (yaw (attitude st)))
              + sinf E (- radians E (pitch (attitude st))) * cosf E (radians E (roll (attitude st)))
                * cosf E (radians E (yaw (attitude st))))
         + y (velocity st)
           * (- sinf E (radians E (roll (attitude st))) * cosf E (radians E (yaw (attitude st)))
              + sinf E (radians E (yaw (attitude st))) * sinf E (- radians E (pitch (attitude st)))
                * cosf E (radians E (roll (attitude st))))
         + z (velocity st) * cosf E (radians E (roll (attitude st)))
           * cosf E (- radians E (pitch (attitude st)))\<rparr>"
  by (simp add: passthrough_block_def Let_def)

lemma effort_block_eq:
  "effort_block E s =
     s\<lparr>tau_x :=
         flt E 0.00239430 * (o_y s - o_y_des s) - flt E 0.00346463 * phi s
         + flt E 0.00135445 * v_y s - flt E 0.00047651 * w_x s,
       tau_y :=
         - flt E 0.00223966 * (o_x s - o_x_des s) - flt E 0.00734151 * theta s
         - flt E 0.00186963 * v_x s - flt E 0.00129356 * w_y s,
       tau_z := - flt E 0.00164210 * psi s - flt E 0.00039822 * w_z s,
       f_z :=
         - flt E 0.11471886 * (o_z s - o_z_des s) - flt E 0.09147906 * v_z s
         + flt E 0.35217900\<rparr>"
  by (simp add: effort_block_def Let_def)

lemma mixer_block_eq:
  "mixer_block E s =
     s\<lparr>m_1 := limitUint16 E (raw_1 E s), m_2 := limitUint16 E (raw_2 E s),
       m_3 := limitUint16 E (raw_3 E s), m_4 := limitUint16 E (raw_4 E s)\<rparr>"
  by (simp add: mixer_block_def Let_def raw_1_def raw_2_def raw_3_def raw_4_def)

lemma observer_block_eq:
  "observer_block E s =
     s\<lparr>n_x_err := k_flow E * ((v_x s / o_z_eq E) - w_y s) - n_x s,
       n_y_err := k_flow E * (w_x s + (v_y s / o_z_eq E)) - n_y s,
       r_err := o_z s - r s,
       o_x := o_x s + dt E * v_x s,
       o_y := o_y s + dt E * v_y s,
       o_z := o_z s + dt E * (v_z s - flt E 3.524731 * (o_z s - r s)),
       psi := psi s + dt E * w_z s,
       theta := theta s + dt E * (w_y s
          - flt E 0.029925 * (k_flow E * ((v_x s / o_z_eq E) - w_y s) - n_x s)),
       phi := phi s + dt E * (w_x s
          - (- flt E 0.024252 * (k_flow E * (w_x s + (v_y s / o_z_eq E)) - n_y s))),
       v_x := v_x s + dt E * (g E * (theta s + dt E * (w_y s
               - flt E 0.029925 * (k_flow E * ((v_x s / o_z_eq E) - w_y s) - n_x s)))
          - flt E 0.322134 * (k_flow E * ((v_x s / o_z_eq E) - w_y s) - n_x s)),
       v_y := v_y s + dt E * (- g E * (phi s + dt E * (w_x s
               - (- flt E 0.024252 * (k_flow E * (w_x s + (v_y s / o_z_eq E)) - n_y s))))
          - flt E 0.317070 * (k_flow E * (w_x s + (v_y s / o_z_eq E)) - n_y s)),
       v_z := v_z s + dt E * (a_z s - g E - flt E 5.676619 * (o_z s - r s))\<rparr>"
  by (simp add: observer_block_def Let_def)

section \<open>Disarm safety\<close>

text \<open>
  C1. On a tick that runs the pipeline (the rate gate of line 155 is open), a setpoint
  whose z mode is \<^verbatim>\<open>modeDisable\<close> makes the controller call \<^verbatim>\<open>powerSet(0, 0, 0, 0)\<close>,
  whatever the static variables, the sensors, the external state and the arithmetic are:
  nothing the estimator or the control law computes reaches the commanded power.
\<close>

theorem disarm_safety:
  fixes E :: "'f::{plus,minus,uminus,times,inverse,zero} firmware"
  assumes "RATE_DO_EXECUTE E (ATTITUDE_RATE E) tick"
    and "z (mode setpoint) = modeDisable"
  shows "snd (controllerAE483 E setpoint sensors state tick s) = Some (0, 0, 0, 0)"
  using assms by (simp add: controller_open_gate command_block_disabled)

theorem disarm_safety_witness:
  "RATE_DO_EXECUTE exact (ATTITUDE_RATE exact) 0
   \<and> z (mode (setpoint_at modeDisable 0 0 1)) = modeDisable
   \<and> snd (controllerAE483 exact (setpoint_at modeDisable 0 0 1) (sensors_at 1 2 3)
            (state_at 0 0 0) 0 globals_init) = Some (0, 0, 0, 0)"
  using disarm_safety [of exact 0 "setpoint_at modeDisable 0 0 1" "sensors_at 1 2 3"
      "state_at 0 0 0" globals_init]
  by (simp add: gate_exact setpoint_at_def)

section \<open>The one-shot reset\<close>

text \<open>
  C2. When the reset flag is set on a tick that runs, the tick is the rest of the pipeline
  (the estimator branch and the commands) applied to the state in which the nine
  integrated variables are zero and the flag is false: the zeroing comes before any
  integration, once. The flag is false after the tick, and the tick that follows
  integrates from what this one left, zeroing nothing.
\<close>

theorem reset_once:
  fixes E :: "'f::{plus,minus,uminus,times,inverse,zero} firmware"
  assumes gate: "RATE_DO_EXECUTE E (ATTITUDE_RATE E) tick"
    and gate': "RATE_DO_EXECUTE E (ATTITUDE_RATE E) tick'"
    and flag: "reset_observer s"
  shows "let s' = fst (controllerAE483 E sp sens st tick s) in
     controllerAE483 E sp sens st tick s =
       command_block E sp (integrate_block E st
         ((read_inputs E sp sens s)
            \<lparr>o_x := 0, o_y := 0, o_z := 0, psi := 0, theta := 0, phi := 0,
             v_x := 0, v_y := 0, v_z := 0, reset_observer := False\<rparr>))
     \<and> \<not> reset_observer s'
     \<and> controllerAE483 E sp' sens' st' tick' s' =
         command_block E sp' (integrate_block E st' (read_inputs E sp' sens' s'))"
proof -
  define s' where "s' = fst (controllerAE483 E sp sens st tick s)"
  have run: "controllerAE483 E sp sens st tick s =
      command_block E sp (integrate_block E st (reset_block (read_inputs E sp sens s)))"
    using gate by (rule controller_open_gate)
  have zeroed: "reset_block (read_inputs E sp sens s) =
      (read_inputs E sp sens s)
        \<lparr>o_x := 0, o_y := 0, o_z := 0, psi := 0, theta := 0, phi := 0,
         v_x := 0, v_y := 0, v_z := 0, reset_observer := False\<rparr>"
    using flag by (simp add: reset_block_zeroes)
  have cleared: "\<not> reset_observer s'"
    unfolding s'_def run by simp
  have "controllerAE483 E sp' sens' st' tick' s' =
      command_block E sp' (integrate_block E st' (reset_block (read_inputs E sp' sens' s')))"
    using gate' by (rule controller_open_gate)
  with cleared have following: "controllerAE483 E sp' sens' st' tick' s' =
      command_block E sp' (integrate_block E st' (read_inputs E sp' sens' s'))"
    by (simp add: reset_block_idle)
  from run zeroed cleared following show ?thesis
    unfolding s'_def Let_def by simp
qed

theorem reset_once_witness:
  "RATE_DO_EXECUTE exact (ATTITUDE_RATE exact) 0
   \<and> RATE_DO_EXECUTE exact (ATTITUDE_RATE exact) 2
   \<and> reset_observer (globals_init\<lparr>use_observer := True, reset_observer := True, o_z := 1\<rparr> :: real globals)
   \<and> \<not> reset_observer
        (fst (controllerAE483 exact (setpoint_at modeAbs 0 0 1) (sensors_at 0 0 0) (state_at 0 0 0) 0
           (globals_init\<lparr>use_observer := True, reset_observer := True, o_z := 1\<rparr>)))"
  using reset_once [of exact 0 2
      "globals_init\<lparr>use_observer := True, reset_observer := True, o_z := 1\<rparr>"
      "setpoint_at modeAbs 0 0 1" "sensors_at 0 0 0" "state_at 0 0 0"]
  by (simp add: exact_def Let_def)

section \<open>Ticks with the z axis disabled\<close>

lemma stored_commands_TOF [simp]:
  "stored_commands (ae483UpdateWithTOF tof s) = stored_commands s"
  by (simp add: stored_commands_def ae483UpdateWithTOF_def Let_def)

lemma stored_commands_Flow [simp]:
  "stored_commands (ae483UpdateWithFlow flow s) = stored_commands s"
  by (simp add: stored_commands_def ae483UpdateWithFlow_def Let_def)

lemma stored_commands_read_inputs [simp]:
  "stored_commands (read_inputs E sp sens s) = stored_commands s"
  by (simp add: stored_commands_def read_inputs_def Let_def)

lemma stored_commands_reset_block [simp]:
  "stored_commands (reset_block s) = stored_commands s"
  by (simp add: stored_commands_def reset_block_def Let_def)

lemma stored_commands_observer_block [simp]:
  "stored_commands (observer_block E s) = stored_commands s"
  by (simp add: stored_commands_def observer_block_def Let_def)

lemma stored_commands_passthrough_block [simp]:
  "stored_commands (passthrough_block E st s) = stored_commands s"
  by (simp add: stored_commands_def passthrough_block_def Let_def)

lemma stored_commands_integrate_block [simp]:
  "stored_commands (integrate_block E st s) = stored_commands s"
  by (simp add: integrate_block_def)

lemma controller_disabled:
  fixes E :: "'f::{plus,minus,uminus,times,inverse,zero} firmware"
  assumes "RATE_DO_EXECUTE E (ATTITUDE_RATE E) tick" and "z (mode sp) = modeDisable"
  shows "controllerAE483 E sp sens st tick s =
    (integrate_block E st (reset_block (read_inputs E sp sens s)), Some (0, 0, 0, 0))"
  using assms by (simp add: controller_open_gate command_block_disabled)

lemma stored_commands_call_step:
  fixes E :: "'f::{plus,minus,uminus,times,inverse,zero} firmware"
  assumes "\<not> computes_effort E c"
  shows "stored_commands (call_step E c s) = stored_commands s"
proof (cases c)
  case (Control sp sens st tick)
  show ?thesis
  proof (cases "RATE_DO_EXECUTE E (ATTITUDE_RATE E) tick")
    case True
    with assms Control have "z (mode sp) = modeDisable" by simp
    with True Control show ?thesis by (simp add: controller_disabled)
  next
    case False
    with Control show ?thesis by (simp add: controller_closed_gate)
  qed
qed simp_all

lemma stored_commands_run:
  fixes E :: "'f::{plus,minus,uminus,times,inverse,zero} firmware"
  assumes "\<forall>c\<in>set cs. \<not> computes_effort E c"
  shows "stored_commands (run E cs s) = stored_commands s"
  using assms by (induction cs arbitrary: s) (simp_all add: stored_commands_call_step)

text \<open>
  C10. A tick that runs with the z mode disabled returns the state that the estimator
  left (inputs read, reset applied, the branch of the estimator run) and commands zero
  power; the stored control effort and motor commands are those from before the tick,
  and they stay so through any later calls among which no tick computes an effort: they
  are the values of the last enabled tick.
\<close>

theorem disabled_tick_frame:
  fixes E :: "'f::{plus,minus,uminus,times,inverse,zero} firmware"
  assumes gate: "RATE_DO_EXECUTE E (ATTITUDE_RATE E) tick"
    and off: "z (mode sp) = modeDisable"
    and quiet: "\<forall>c\<in>set cs. \<not> computes_effort E c"
  shows "let s' = fst (controllerAE483 E sp sens st tick s) in
    controllerAE483 E sp sens st tick s =
      (integrate_block E st (reset_block (read_inputs E sp sens s)), Some (0, 0, 0, 0))
    \<and> stored_commands s' = stored_commands s
    \<and> stored_commands (run E cs s') = stored_commands s"
proof -
  have tick: "controllerAE483 E sp sens st tick s =
      (integrate_block E st (reset_block (read_inputs E sp sens s)), Some (0, 0, 0, 0))"
    using gate off by (rule controller_disabled)
  have kept: "stored_commands (fst (controllerAE483 E sp sens st tick s)) = stored_commands s"
    unfolding tick by simp
  have later: "stored_commands (run E cs (fst (controllerAE483 E sp sens st tick s)))
      = stored_commands s"
    using quiet kept by (simp add: stored_commands_run)
  from tick kept later show ?thesis
    unfolding Let_def by simp
qed

theorem disabled_tick_frame_witness:
  "RATE_DO_EXECUTE exact (ATTITUDE_RATE exact) 0
   \<and> z (mode (setpoint_at modeDisable 0 0 1)) = modeDisable
   \<and> list_all (\<lambda>c. \<not> computes_effort exact c) quiet_calls
   \<and> stored_commands
       (run exact quiet_calls
         (fst (controllerAE483 exact (setpoint_at modeDisable 0 0 1) (sensors_at 0 0 0)
            (state_at 0 0 1) 0 (globals_init\<lparr>tau_x := 1, f_z := 2, m_1 := 3, m_4 := 4\<rparr>))))
       = ((1, 0, 0, 2), (3, 0, 0, 4))
   \<and> o_z (fst (controllerAE483 exact (setpoint_at modeDisable 0 0 1) (sensors_at 0 0 0)
            (state_at 0 0 1) 0 (globals_init\<lparr>tau_x := 1, f_z := 2, m_1 := 3, m_4 := 4\<rparr>))) = 1"
proof -
  let ?s0 = "globals_init\<lparr>tau_x := 1, f_z := 2, m_1 := 3, m_4 := 4\<rparr> :: real globals"
  let ?tick = "controllerAE483 exact (setpoint_at modeDisable 0 0 1) (sensors_at 0 0 0)
      (state_at 0 0 1) 0 ?s0"
  have quiet: "\<forall>c\<in>set quiet_calls. \<not> computes_effort exact c"
    by (simp add: quiet_calls_def exact_def setpoint_at_def)
  have off: "z (mode (setpoint_at modeDisable 0 0 1)) = modeDisable"
    by (simp add: setpoint_at_def)
  note frame = disabled_tick_frame [OF gate_exact off quiet,
      of "sensors_at 0 0 0" "state_at 0 0 1" ?s0, unfolded Let_def]
  from frame have tick: "?tick =
      (integrate_block exact (state_at 0 0 1)
         (reset_block (read_inputs exact (setpoint_at modeDisable 0 0 1) (sensors_at 0 0 0) ?s0)),
       Some (0, 0, 0, 0))"
    by (rule conjunct1)
  from frame have kept: "stored_commands (run exact quiet_calls (fst ?tick)) = stored_commands ?s0"
    by (rule conjunct2 [THEN conjunct2])
  have start: "stored_commands ?s0 = ((1, 0, 0, 2), (3, 0, 0, 4))"
    by (simp add: stored_commands_def globals_init_def)
  have estimate: "o_z (fst ?tick) = 1"
    unfolding tick
    by (simp add: integrate_block_def passthrough_block_def reset_block_def read_inputs_def
        globals_init_def state_at_def Let_def)
  from quiet have "list_all (\<lambda>c. \<not> computes_effort exact c) quiet_calls"
    by (simp add: list_all_iff)
  with gate_exact off kept start estimate show ?thesis
    by simp
qed

section \<open>The sensor callbacks\<close>

lemma TOF_frame:
  "ae483UpdateWithTOF tof s = s\<lparr>tof_distance := distance tof, tof_count := tof_count s + 1\<rparr>"
  by (simp add: ae483UpdateWithTOF_def Let_def)

lemma Flow_frame:
  "ae483UpdateWithFlow flow s =
     s\<lparr>flow_dpixelx := dpixelx flow, flow_dpixely := dpixely flow,
       flow_count := flow_count s + 1\<rparr>"
  by (simp add: ae483UpdateWithFlow_def Let_def)

lemma unat_incr16: "unat ((w::16 word) + 1) = (if unat w < 65535 then unat w + 1 else 0)"
proof (cases "unat w < 65535")
  case True
  then show ?thesis by (simp add: unat_word_ariths)
next
  case False
  moreover have "unat w < 65536" using unsigned_less [of w, where ?'a = nat] by simp
  ultimately have "unat w = 65535" by arith
  then show ?thesis by (simp add: unat_word_ariths)
qed

lemma counts_controller:
  fixes E :: "'f::{plus,minus,uminus,times,inverse,zero} firmware"
  shows "tof_count (fst (controllerAE483 E sp sens st tick s)) = tof_count s"
    and "flow_count (fst (controllerAE483 E sp sens st tick s)) = flow_count s"
  by (simp_all add: controllerAE483_def command_block_def integrate_block_def
      mixer_block_def effort_block_def observer_block_def passthrough_block_def
      reset_block_def read_inputs_def Let_def)

lemma tof_count_run:
  fixes E :: "'f::{plus,minus,uminus,times,inverse,zero} firmware"
  shows "tof_count (run E cs s) = tof_count s + of_nat (tof_calls cs)"
proof (induction cs arbitrary: s)
  case Nil
  show ?case by simp
next
  case (Cons c cs)
  show ?case by (cases c) (simp_all add: Cons.IH TOF_frame Flow_frame counts_controller)
qed

lemma flow_count_run:
  fixes E :: "'f::{plus,minus,uminus,times,inverse,zero} firmware"
  shows "flow_count (run E cs s) = flow_count s + of_nat (flow_calls cs)"
proof (induction cs arbitrary: s)
  case Nil
  show ?case by simp
next
  case (Cons c cs)
  show ?case by (cases c) (simp_all add: Cons.IH TOF_frame Flow_frame counts_controller)
qed

lemma tof_calls_replicate [simp]: "tof_calls (replicate n (TOF tof)) = n"
  by (induction n) simp_all

text \<open>
  C9, as stated, fails where the counter wraps: after 65535 range samples the counter is
  65535, and the next call makes it 0, which is not greater.
\<close>

theorem tof_count_wraps:
  "tof_count (run exact (replicate 65535 (TOF \<lparr>distance = 1\<rparr>)) globals_init) = 65535
   \<and> tof_count (ae483UpdateWithTOF \<lparr>distance = 1\<rparr>
        (run exact (replicate 65535 (TOF \<lparr>distance = 1\<rparr>)) globals_init)) = 0
   \<and> \<not> unat (tof_count (run exact (replicate 65535 (TOF \<lparr>distance = 1\<rparr>)) globals_init))
        < unat (tof_count (ae483UpdateWithTOF \<lparr>distance = 1\<rparr>
            (run exact (replicate 65535 (TOF \<lparr>distance = 1\<rparr>)) globals_init)))"
  by (simp add: tof_count_run TOF_frame globals_init_def)

text \<open>
  C9, amended. The range callback overwrites the buffered range and nothing else; the
  flow callback overwrites the two buffered flow values and nothing else; each adds one
  to its own counter modulo \<open>2 ^ 16\<close>, so that the counter grows by one unless it was
  65535, when it returns to 0. Through any sequence of calls, ticks included, each counter
  is its first value plus the number of calls of its callback, modulo \<open>2 ^ 16\<close>.
\<close>

theorem sensor_callbacks_frame:
  fixes E :: "'f::{plus,minus,uminus,times,inverse,zero} firmware"
  shows "ae483UpdateWithTOF tof s =
      s\<lparr>tof_distance := distance tof, tof_count := tof_count s + 1\<rparr>
    \<and> ae483UpdateWithFlow flow s =
      s\<lparr>flow_dpixelx := dpixelx flow, flow_dpixely := dpixely flow,
        flow_count := flow_count s + 1\<rparr>
    \<and> unat (tof_count (ae483UpdateWithTOF tof s)) =
        (if unat (tof_count s) < 65535 then unat (tof_count s) + 1 else 0)
    \<and> unat (flow_count (ae483UpdateWithFlow flow s)) =
        (if unat (flow_count s) < 65535 then unat (flow_count s) + 1 else 0)
    \<and> unat (tof_count (run E cs s)) = (unat (tof_count s) + tof_calls cs) mod 65536
    \<and> unat (flow_count (run E cs s)) = (unat (flow_count s) + flow_calls cs) mod 65536"
proof -
  have "unat (tof_count s + of_nat (tof_calls cs)) = (unat (tof_count s) + tof_calls cs) mod 65536"
    by (simp add: unat_word_ariths unsigned_of_nat take_bit_eq_mod mod_simps)
  moreover
  have "unat (flow_count s + of_nat (flow_calls cs)) = (unat (flow_count s) + flow_calls cs) mod 65536"
    by (simp add: unat_word_ariths unsigned_of_nat take_bit_eq_mod mod_simps)
  ultimately show ?thesis
    by (simp add: TOF_frame Flow_frame unat_incr16 tof_count_run flow_count_run)
qed

section \<open>The mixer\<close>

lemma c_trunc_within:
  assumes "0 \<le> v" and "v \<le> 65535"
  shows "c_trunc v = \<lfloor>v\<rfloor>" and "0 \<le> \<lfloor>v\<rfloor>" and "\<lfloor>v\<rfloor> \<le> 65535"
proof -
  from assms(1) show "c_trunc v = \<lfloor>v\<rfloor>" by (simp add: c_trunc_def)
  from assms(1) show "0 \<le> \<lfloor>v\<rfloor>" by simp
  from assms(2) show "\<lfloor>v\<rfloor> \<le> 65535" by (simp add: floor_le_iff)
qed

lemma uint_limitUint16_spec:
  "uint (limitUint16_spec v) =
     (if v < 0 then 0 else if 65535 < v then 65535 else \<lfloor>v\<rfloor>)"
proof (cases "v < 0 \<or> 65535 < v")
  case True
  then show ?thesis by (auto simp: limitUint16_spec_def)
next
  case False
  then have range: "0 \<le> v" "v \<le> 65535" by simp_all
  have "uint (word_of_int \<lfloor>v\<rfloor> :: 16 word) = \<lfloor>v\<rfloor>"
    using c_trunc_within(2,3) [OF range]
    by (simp add: uint_word_of_int take_bit_eq_mod)
  with False range show ?thesis
    by (simp add: limitUint16_spec_def c_trunc_within(1))
qed

text \<open>
  C3. With \<^verbatim>\<open>limitUint16\<close> as the specification describes it, for every control effort
  each motor command is its row of the mixing matrix applied to the effort, saturated:
  a raw value below 0 is commanded as 0, a raw value above 65535 is commanded as 65535,
  and a raw value within the range as its integer part. No raw value is commanded as its
  value modulo \<open>2 ^ 16\<close>. The raw values are real numbers here: the rows are evaluated
  exactly, with the literals as the compiler rounds them.
\<close>

theorem mixer_saturates:
  fixes E :: "real firmware"
  shows "let s' = mixer_block (E\<lparr>limitUint16 := limitUint16_spec\<rparr>) s;
             r1 = - flt E 3706927.3 * tau_x s - flt E 3706927.3 * tau_y s
                  - flt E 38218981.7 * tau_z s + flt E 122328.6 * f_z s;
             r2 = - flt E 3706927.3 * tau_x s + flt E 3706927.3 * tau_y s
                  + flt E 38218981.7 * tau_z s + flt E 122328.6 * f_z s;
             r3 = flt E 3706927.3 * tau_x s + flt E 3706927.3 * tau_y s
                  - flt E 38218981.7 * tau_z s + flt E 122328.6 * f_z s;
             r4 = flt E 3706927.3 * tau_x s - flt E 3706927.3 * tau_y s
                  + flt E 38218981.7 * tau_z s + flt E 122328.6 * f_z s in
     uint (m_1 s') = (if r1 < 0 then 0 else if 65535 < r1 then 65535 else \<lfloor>r1\<rfloor>)
   \<and> uint (m_2 s') = (if r2 < 0 then 0 else if 65535 < r2 then 65535 else \<lfloor>r2\<rfloor>)
   \<and> uint (m_3 s') = (if r3 < 0 then 0 else if 65535 < r3 then 65535 else \<lfloor>r3\<rfloor>)
   \<and> uint (m_4 s') = (if r4 < 0 then 0 else if 65535 < r4 then 65535 else \<lfloor>r4\<rfloor>)"
  by (simp add: Let_def mixer_block_eq raw_1_def raw_2_def raw_3_def raw_4_def
      uint_limitUint16_spec)

text \<open>
  A thrust of 1 alone asks for 122328.6 and is commanded as 65535, not as the 56792 that
  122328 is modulo \<open>2 ^ 16\<close>; a thrust of 20000 asks for more than \<open>2 ^ 31\<close> and is
  commanded as 65535; a thrust of \<open>- 1\<close> is commanded as 0; a thrust of 0.5 is within
  the range and commanded as 61164.
\<close>

lemma exact_limit: "exact\<lparr>limitUint16 := limitUint16_spec\<rparr> = exact"
  by (simp add: exact_def)

theorem mixer_saturates_witness:
  "m_1 (mixer_block exact (globals_init\<lparr>f_z := 1\<rparr>)) = 65535
   \<and> m_1 (mixer_block exact (globals_init\<lparr>f_z := 20000\<rparr>)) = 65535
   \<and> m_1 (mixer_block exact (globals_init\<lparr>f_z := - 1\<rparr>)) = 0
   \<and> m_1 (mixer_block exact (globals_init\<lparr>f_z := 0.5\<rparr>)) = 61164"
proof -
  have high: "uint (m_1 (mixer_block exact (globals_init\<lparr>f_z := 1\<rparr>))) = 65535"
    using mixer_saturates [of exact "globals_init\<lparr>f_z := 1\<rparr>"]
    unfolding exact_limit Let_def
    by (simp add: globals_init_def of_rat_divide)
  have huge: "uint (m_1 (mixer_block exact (globals_init\<lparr>f_z := 20000\<rparr>))) = 65535"
    using mixer_saturates [of exact "globals_init\<lparr>f_z := 20000\<rparr>"]
    unfolding exact_limit Let_def
    by (simp add: globals_init_def of_rat_divide)
  have low: "uint (m_1 (mixer_block exact (globals_init\<lparr>f_z := - 1\<rparr>))) = 0"
    using mixer_saturates [of exact "globals_init\<lparr>f_z := - 1\<rparr>"]
    unfolding exact_limit Let_def
    by (simp add: globals_init_def of_rat_divide)
  have mid: "uint (m_1 (mixer_block exact (globals_init\<lparr>f_z := 0.5\<rparr>))) = 61164"
    using mixer_saturates [of exact "globals_init\<lparr>f_z := 0.5\<rparr>"]
    unfolding exact_limit Let_def
    by (simp add: globals_init_def of_rat_divide)
  from high huge low mid show ?thesis
    by (simp add: word_uint_eq_iff)
qed

section \<open>Hover at trim\<close>

lemma command_block_keeps:
  "o_x (fst (command_block E sp s)) = o_x s"
  "o_y (fst (command_block E sp s)) = o_y s"
  "o_z (fst (command_block E sp s)) = o_z s"
  "psi (fst (command_block E sp s)) = psi s"
  "theta (fst (command_block E sp s)) = theta s"
  "phi (fst (command_block E sp s)) = phi s"
  "v_x (fst (command_block E sp s)) = v_x s"
  "v_y (fst (command_block E sp s)) = v_y s"
  "v_z (fst (command_block E sp s)) = v_z s"
  "w_x (fst (command_block E sp s)) = w_x s"
  "w_y (fst (command_block E sp s)) = w_y s"
  "w_z (fst (command_block E sp s)) = w_z s"
  "o_x_des (fst (command_block E sp s)) = o_x_des s"
  "o_y_des (fst (command_block E sp s)) = o_y_des s"
  "o_z_des (fst (command_block E sp s)) = o_z_des s"
  by (simp_all add: command_block_def effort_block_def mixer_block_def Let_def)

lemma command_block_enabled:
  assumes "z (mode sp) \<noteq> modeDisable"
  shows "command_block E sp s =
    (mixer_block E (effort_block E s),
     Some (m_1 (mixer_block E (effort_block E s)), m_2 (mixer_block E (effort_block E s)),
           m_3 (mixer_block E (effort_block E s)), m_4 (mixer_block E (effort_block E s))))"
  using assms by (simp add: command_block_def Let_def)

lemma effort_at_rest:
  fixes E :: "'f::ring firmware"
  assumes "o_x s = o_x_des s" "o_y s = o_y_des s" "o_z s = o_z_des s"
    and "psi s = 0" "theta s = 0" "phi s = 0"
    and "v_x s = 0" "v_y s = 0" "v_z s = 0"
    and "w_x s = 0" "w_y s = 0" "w_z s = 0"
  shows "tau_x (effort_block E s) = 0" "tau_y (effort_block E s) = 0"
    "tau_z (effort_block E s) = 0" "f_z (effort_block E s) = flt E 0.35217900"
  using assms by (simp_all add: effort_block_def Let_def)

lemma mixer_block_effort:
  "tau_x (mixer_block E s) = tau_x s" "tau_y (mixer_block E s) = tau_y s"
  "tau_z (mixer_block E s) = tau_z s" "f_z (mixer_block E s) = f_z s"
  by (simp_all add: mixer_block_def Let_def)

lemma mixer_block_commands:
  "m_1 (mixer_block E s) = limitUint16 E (raw_1 E s)"
  "m_2 (mixer_block E s) = limitUint16 E (raw_2 E s)"
  "m_3 (mixer_block E s) = limitUint16 E (raw_3 E s)"
  "m_4 (mixer_block E s) = limitUint16 E (raw_4 E s)"
  by (simp_all add: mixer_block_def Let_def raw_1_def raw_2_def raw_3_def raw_4_def)

lemma raw_without_torque:
  fixes E :: "'f::ring firmware"
  assumes "tau_x s = 0" "tau_y s = 0" "tau_z s = 0"
  shows "raw_1 E s = flt E 122328.6 * f_z s" "raw_2 E s = flt E 122328.6 * f_z s"
    "raw_3 E s = flt E 122328.6 * f_z s" "raw_4 E s = flt E 122328.6 * f_z s"
  using assms by (simp_all add: raw_1_def raw_2_def raw_3_def raw_4_def)

text \<open>
  C8. On an enabled tick whose state estimate is at the desired position with zero
  attitude, zero velocity and zero angular rates, the three torques are zero, the thrust
  is the bias 0.35217900, and the four motor commands are equal. The arithmetic is that
  of a ring: the float products by zero and sums of zeros are taken as exact.
\<close>

theorem hover_at_trim:
  fixes E :: "'f::{ring,inverse} firmware"
  assumes gate: "RATE_DO_EXECUTE E (ATTITUDE_RATE E) tick"
    and on: "z (mode sp) \<noteq> modeDisable"
    and s': "s' = fst (controllerAE483 E sp sens st tick s)"
    and position: "o_x s' = o_x_des s'" "o_y s' = o_y_des s'" "o_z s' = o_z_des s'"
    and attitude: "psi s' = 0" "theta s' = 0" "phi s' = 0"
    and velocity: "v_x s' = 0" "v_y s' = 0" "v_z s' = 0"
    and rates: "w_x s' = 0" "w_y s' = 0" "w_z s' = 0"
  shows "tau_x s' = 0 \<and> tau_y s' = 0 \<and> tau_z s' = 0 \<and> f_z s' = flt E 0.35217900
    \<and> m_1 s' = m_2 s' \<and> m_2 s' = m_3 s' \<and> m_3 s' = m_4 s'
    \<and> snd (controllerAE483 E sp sens st tick s) = Some (m_1 s', m_1 s', m_1 s', m_1 s')"
proof -
  define e where "e = integrate_block E st (reset_block (read_inputs E sp sens s))"
  have tick: "controllerAE483 E sp sens st tick s = command_block E sp e"
    unfolding e_def using gate by (rule controller_open_gate)
  have rest: "o_x e = o_x_des e" "o_y e = o_y_des e" "o_z e = o_z_des e"
    "psi e = 0" "theta e = 0" "phi e = 0" "v_x e = 0" "v_y e = 0" "v_z e = 0"
    "w_x e = 0" "w_y e = 0" "w_z e = 0"
    using position attitude velocity rates unfolding s' tick
    by (simp_all add: command_block_keeps)
  have s'_eq: "s' = mixer_block E (effort_block E e)"
    unfolding s' tick by (simp add: command_block_enabled [OF on])
  have effort: "tau_x s' = 0" "tau_y s' = 0" "tau_z s' = 0" "f_z s' = flt E 0.35217900"
    unfolding s'_eq mixer_block_effort by (rule effort_at_rest [OF rest])+
  have raws: "raw_1 E (effort_block E e) = raw_2 E (effort_block E e)"
    "raw_2 E (effort_block E e) = raw_3 E (effort_block E e)"
    "raw_3 E (effort_block E e) = raw_4 E (effort_block E e)"
    by (simp_all add: raw_without_torque effort_at_rest [OF rest])
  have equal: "m_1 s' = m_2 s'" "m_2 s' = m_3 s'" "m_3 s' = m_4 s'"
    unfolding s'_eq mixer_block_commands using raws by simp_all
  have "snd (controllerAE483 E sp sens st tick s) = Some (m_1 s', m_2 s', m_3 s', m_4 s')"
    unfolding tick s'_eq by (simp add: command_block_enabled [OF on])
  with equal have "snd (controllerAE483 E sp sens st tick s) = Some (m_1 s', m_1 s', m_1 s', m_1 s')"
    by simp
  with effort equal show ?thesis by simp
qed

text \<open>The tick of a vehicle at rest at the trim altitude, in pass-through mode.\<close>

lemma hover_estimate:
  "integrate_block exact (state_at 0 0 0.5)
     (reset_block (read_inputs exact (setpoint_at modeAbs 0 0 0.5) (sensors_at 0 0 0) globals_init))
   = globals_init\<lparr>o_z := 0.5, o_z_des := 0.5, a_z := g exact\<rparr>"
  by (simp add: read_inputs_eq reset_block_def integrate_block_def passthrough_block_eq
      globals_init_def setpoint_at_def sensors_at_def state_at_def)

lemma hover_limit: "limitUint16_spec (of_rat 122328.6 * of_rat 0.35217900) = 43081"
  by (simp add: of_rat_divide of_rat_power limitUint16_spec_def c_trunc_def)

lemma hover_command:
  "command_block exact (setpoint_at modeAbs 0 0 0.5)
     (globals_init\<lparr>o_z := 0.5, o_z_des := 0.5, a_z := g exact\<rparr>) =
   (globals_init\<lparr>o_z := 0.5, o_z_des := 0.5, a_z := g exact, f_z := of_rat 0.35217900,
      m_1 := 43081, m_2 := 43081, m_3 := 43081, m_4 := 43081\<rparr>,
    Some (43081, 43081, 43081, 43081))"
proof -
  have on: "z (mode (setpoint_at modeAbs 0 0 0.5)) \<noteq> modeDisable"
    by (simp add: setpoint_at_def)
  have effort: "effort_block exact (globals_init\<lparr>o_z := 0.5, o_z_des := 0.5, a_z := g exact\<rparr>)
      = globals_init\<lparr>o_z := 0.5, o_z_des := 0.5, a_z := g exact, f_z := of_rat 0.35217900\<rparr>"
    by (simp add: effort_block_eq globals_init_def)
  have raws:
    "raw_1 exact (globals_init\<lparr>o_z := 0.5, o_z_des := 0.5, a_z := g exact, f_z := of_rat 0.35217900\<rparr>)
       = of_rat 122328.6 * of_rat 0.35217900"
    "raw_2 exact (globals_init\<lparr>o_z := 0.5, o_z_des := 0.5, a_z := g exact, f_z := of_rat 0.35217900\<rparr>)
       = of_rat 122328.6 * of_rat 0.35217900"
    "raw_3 exact (globals_init\<lparr>o_z := 0.5, o_z_des := 0.5, a_z := g exact, f_z := of_rat 0.35217900\<rparr>)
       = of_rat 122328.6 * of_rat 0.35217900"
    "raw_4 exact (globals_init\<lparr>o_z := 0.5, o_z_des := 0.5, a_z := g exact, f_z := of_rat 0.35217900\<rparr>)
       = of_rat 122328.6 * of_rat 0.35217900"
    by (simp_all add: raw_1_def raw_2_def raw_3_def raw_4_def globals_init_def)
  show ?thesis
    unfolding command_block_enabled [OF on] effort mixer_block_eq raws exact_simps hover_limit
    by (simp add: globals_init_def)
qed


theorem hover_at_trim_witness:
  "RATE_DO_EXECUTE exact (ATTITUDE_RATE exact) 0
   \<and> z (mode (setpoint_at modeAbs 0 0 0.5)) \<noteq> modeDisable
   \<and> estimate_of (fst (controllerAE483 exact (setpoint_at modeAbs 0 0 0.5) (sensors_at 0 0 0)
         (state_at 0 0 0.5) 0 globals_init)) = ((0, 0, 0.5), (0, 0, 0), (0, 0, 0), (0, 0, 0))
   \<and> o_z_des (fst (controllerAE483 exact (setpoint_at modeAbs 0 0 0.5) (sensors_at 0 0 0)
         (state_at 0 0 0.5) 0 globals_init)) = 0.5
   \<and> f_z (fst (controllerAE483 exact (setpoint_at modeAbs 0 0 0.5) (sensors_at 0 0 0)
         (state_at 0 0 0.5) 0 globals_init)) = flt exact 0.35217900
   \<and> snd (controllerAE483 exact (setpoint_at modeAbs 0 0 0.5) (sensors_at 0 0 0)
         (state_at 0 0 0.5) 0 globals_init) = Some (43081, 43081, 43081, 43081)"
proof -
  let ?tick = "controllerAE483 exact (setpoint_at modeAbs 0 0 0.5) (sensors_at 0 0 0)
      (state_at 0 0 0.5) 0 globals_init"
  let ?s' = "globals_init\<lparr>o_z := 0.5, o_z_des := 0.5, a_z := g exact, f_z := of_rat 0.35217900,
      m_1 := 43081, m_2 := 43081, m_3 := 43081, m_4 := 43081\<rparr> :: real globals"
  have on: "z (mode (setpoint_at modeAbs 0 0 0.5)) \<noteq> modeDisable"
    by (simp add: setpoint_at_def)
  have tick: "?tick = (?s', Some (43081, 43081, 43081, 43081))"
    unfolding controller_open_gate [OF gate_exact] hover_estimate hover_command ..
  have s': "?s' = fst ?tick"
    unfolding tick by simp
  have at_rest: "o_x ?s' = o_x_des ?s'" "o_y ?s' = o_y_des ?s'" "o_z ?s' = o_z_des ?s'"
    "psi ?s' = 0" "theta ?s' = 0" "phi ?s' = 0" "v_x ?s' = 0" "v_y ?s' = 0" "v_z ?s' = 0"
    "w_x ?s' = 0" "w_y ?s' = 0" "w_z ?s' = 0"
    by (simp_all add: globals_init_def)
  have m: "m_1 ?s' = 43081" and des: "o_z_des ?s' = 0.5"
    and est: "estimate_of ?s' = ((0, 0, 0.5), (0, 0, 0), (0, 0, 0), (0, 0, 0))"
    by (simp_all add: globals_init_def estimate_of_def)
  from hover_at_trim [OF gate_exact on s' at_rest]
  have "f_z ?s' = flt exact 0.35217900"
    and "snd ?tick = Some (m_1 ?s', m_1 ?s', m_1 ?s', m_1 ?s')"
    by blast+
  with gate_exact on m des est show ?thesis
    unfolding s' [symmetric] by simp
qed

section \<open>More facts about the blocks\<close>

lemma tick_estimate:
  fixes E :: "'f::{plus,minus,uminus,times,inverse,zero} firmware"
  assumes "RATE_DO_EXECUTE E (ATTITUDE_RATE E) tick"
  shows "estimate_of (fst (controllerAE483 E sp sens st tick s)) =
    estimate_of (integrate_block E st (reset_block (read_inputs E sp sens s)))"
  unfolding controller_open_gate [OF assms]
  by (simp add: estimate_of_def command_block_keeps)

lemma command_block_residuals:
  "n_x_err (fst (command_block E sp s)) = n_x_err s"
  "n_y_err (fst (command_block E sp s)) = n_y_err s"
  "r_err (fst (command_block E sp s)) = r_err s"
  "n_x (fst (command_block E sp s)) = n_x s"
  "n_y (fst (command_block E sp s)) = n_y s"
  "r (fst (command_block E sp s)) = r s"
  "a_z (fst (command_block E sp s)) = a_z s"
  by (simp_all add: command_block_def effort_block_eq mixer_block_eq Let_def)

lemma observer_tick:
  fixes E :: "'f::{plus,minus,uminus,times,inverse,zero} firmware"
  assumes gate: "RATE_DO_EXECUTE E (ATTITUDE_RATE E) tick"
    and observer: "use_observer s"
  shows "controllerAE483 E sp sens st tick s =
    command_block E sp (observer_block E (reset_block (read_inputs E sp sens s)))"
  unfolding controller_open_gate [OF gate] integrate_block_def
  using observer by simp

lemma passthrough_tick:
  fixes E :: "'f::{plus,minus,uminus,times,inverse,zero} firmware"
  assumes gate: "RATE_DO_EXECUTE E (ATTITUDE_RATE E) tick"
    and observer: "\<not> use_observer s"
  shows "controllerAE483 E sp sens st tick s =
    command_block E sp (passthrough_block E st (reset_block (read_inputs E sp sens s)))"
  unfolding controller_open_gate [OF gate] integrate_block_def
  using observer by simp

lemma gate_exact_2: "RATE_DO_EXECUTE exact (ATTITUDE_RATE exact) 2"
  by (simp add: exact_def)

section \<open>The flow residuals\<close>

lemma rolling_inputs:
  "reset_block (read_inputs exact (setpoint_at modeDisable 0 0 0) (sensors_at 1 0 0) observing)
   = observing\<lparr>w_x := pi / 180, a_z := g exact\<rparr>"
  by (simp add: read_inputs_eq reset_block_def observing_def globals_init_def
      setpoint_at_def sensors_at_def)

text \<open>
  C6, as stated, fails: with the observer on, everything at rest and a gyro rate of one
  degree per second about x, the y residual that the tick stores is not
  \<open>k_flow * (v_y / o_z_eq - w_x) - n_y\<close>.
\<close>

theorem flow_residual_y_sign:
  "n_y_err (fst (controllerAE483 exact (setpoint_at modeDisable 0 0 0) (sensors_at 1 0 0)
       (state_at 0 0 0) 0 observing))
   \<noteq> k_flow exact
        * (v_y observing / o_z_eq exact
           - w_x (fst (controllerAE483 exact (setpoint_at modeDisable 0 0 0) (sensors_at 1 0 0)
               (state_at 0 0 0) 0 observing)))
      - n_y (fst (controllerAE483 exact (setpoint_at modeDisable 0 0 0) (sensors_at 1 0 0)
               (state_at 0 0 0) 0 observing))"
proof -
  have use: "use_observer observing" by (simp add: observing_def)
  have tick: "fst (controllerAE483 exact (setpoint_at modeDisable 0 0 0) (sensors_at 1 0 0)
       (state_at 0 0 0) 0 observing) = observer_block exact (observing\<lparr>w_x := pi / 180, a_z := g exact\<rparr>)"
    unfolding observer_tick [OF gate_exact use] rolling_inputs
    by (simp add: command_block_disabled setpoint_at_def)
  have "k_flow exact * (pi / 180) \<noteq> k_flow exact * (- (pi / 180))"
    by (simp add: k_flow_def of_rat_divide of_rat_power)
  then show ?thesis
    unfolding tick
    by (simp add: observer_block_eq observing_def globals_init_def)
qed

text \<open>
  C6, amended. In internal-observer mode the x flow residual is
  \<open>k_flow * (v_x / o_z_eq - w_y) - n_x\<close> and the y flow residual is
  \<open>k_flow * (w_x + v_y / o_z_eq) - n_y\<close>: the rate \<open>w_x\<close> is added, not subtracted.
  The velocities are those that enter the observer (after the reset), the rates and the
  flow are those read on this tick.
\<close>

theorem flow_residuals:
  fixes E :: "'f::{plus,minus,uminus,times,inverse,zero} firmware"
  assumes gate: "RATE_DO_EXECUTE E (ATTITUDE_RATE E) tick"
    and observer: "use_observer s"
  shows "let p = reset_block (read_inputs E sp sens s);
             s' = fst (controllerAE483 E sp sens st tick s) in
     n_x_err s' = k_flow E * ((v_x p / o_z_eq E) - w_y s') - n_x s'
     \<and> n_y_err s' = k_flow E * (w_x s' + (v_y p / o_z_eq E)) - n_y s'
     \<and> w_x s' = radians E (x (gyro sens)) \<and> w_y s' = radians E (y (gyro sens))
     \<and> n_x s' = flow_dpixelx s \<and> n_y s' = flow_dpixely s"
proof -
  define p where "p = reset_block (read_inputs E sp sens s)"
  have use: "use_observer p" unfolding p_def using observer by simp
  have tick: "controllerAE483 E sp sens st tick s = command_block E sp (observer_block E p)"
    unfolding controller_open_gate [OF gate] p_def [symmetric] integrate_block_def
    using use by simp
  have inputs: "w_x p = radians E (x (gyro sens))" "w_y p = radians E (y (gyro sens))"
    "n_x p = flow_dpixelx s" "n_y p = flow_dpixely s"
    unfolding p_def by (simp_all add: reset_block_def read_inputs_eq Let_def)
  show ?thesis
    unfolding p_def [symmetric] Let_def tick
    by (simp add: command_block_residuals command_block_keeps observer_block_eq inputs)
qed

theorem flow_residuals_witness:
  "RATE_DO_EXECUTE exact (ATTITUDE_RATE exact) 0 \<and> use_observer observing
   \<and> n_y_err (fst (controllerAE483 exact (setpoint_at modeDisable 0 0 0) (sensors_at 1 0 0)
       (state_at 0 0 0) 0 observing)) = k_flow exact * (pi / 180)"
proof -
  let ?tick = "controllerAE483 exact (setpoint_at modeDisable 0 0 0) (sensors_at 1 0 0)
       (state_at 0 0 0) 0 observing"
  have use: "use_observer observing" by (simp add: observing_def)
  from flow_residuals [OF gate_exact use, of "setpoint_at modeDisable 0 0 0" "sensors_at 1 0 0"
      "state_at 0 0 0", unfolded Let_def rolling_inputs]
  have "n_y_err (fst ?tick) =
      k_flow exact * (w_x (fst ?tick) + v_y (observing\<lparr>w_x := pi / 180, a_z := g exact\<rparr>) / o_z_eq exact)
        - n_y (fst ?tick)"
    and "w_x (fst ?tick) = radians exact (x (gyro (sensors_at 1 0 0)))"
    and "n_y (fst ?tick) = flow_dpixely observing"
    by blast+
  then have "n_y_err (fst ?tick) = k_flow exact * (pi / 180)"
    by (simp add: observing_def globals_init_def sensors_at_def)
  with gate_exact use show ?thesis by simp
qed

section \<open>The integration step\<close>

lemma flow_seen_inputs:
  "reset_block (read_inputs exact (setpoint_at modeDisable 0 0 0) (sensors_at 0 0 0) flow_seen)
   = observing\<lparr>flow_dpixelx := 1, flow_count := 1, n_x := 1, a_z := g exact\<rparr>"
  by (simp add: read_inputs_eq reset_block_def flow_seen_def Flow_frame observing_def
      globals_init_def setpoint_at_def sensors_at_def)

text \<open>
  C4, as stated, fails: with the observer on, everything at rest and a flow sample of 1
  in x, the forward Euler step of the specification gives \<open>v_x = 0.000644268\<close>, and the
  tick gives \<open>v_x = 0.000645442257\<close>: it has read the pitch that it updated two lines
  before.
\<close>

theorem observer_not_forward_euler:
  "v_x (forward_euler_step exact
      (reset_block (read_inputs exact (setpoint_at modeDisable 0 0 0) (sensors_at 0 0 0)
         flow_seen))) = 0.000644268
   \<and> v_x (fst (controllerAE483 exact (setpoint_at modeDisable 0 0 0) (sensors_at 0 0 0)
        (state_at 0 0 0) 0 flow_seen)) = 0.000645442257"
proof -
  have use: "use_observer flow_seen"
    by (simp add: flow_seen_def Flow_frame observing_def)
  have tick: "fst (controllerAE483 exact (setpoint_at modeDisable 0 0 0) (sensors_at 0 0 0)
        (state_at 0 0 0) 0 flow_seen)
      = observer_block exact (observing\<lparr>flow_dpixelx := 1, flow_count := 1, n_x := 1, a_z := g exact\<rparr>)"
    unfolding observer_tick [OF gate_exact use] flow_seen_inputs
    by (simp add: command_block_disabled setpoint_at_def)
  have claimed: "v_x (forward_euler_step exact
      (observing\<lparr>flow_dpixelx := 1, flow_count := 1, n_x := 1, a_z := g exact\<rparr>)) = 0.000644268"
    by (simp add: forward_euler_step_def Let_def observing_def globals_init_def
        k_flow_def g_def dt_def o_z_eq_def of_rat_divide of_rat_power)
  have code: "v_x (observer_block exact
      (observing\<lparr>flow_dpixelx := 1, flow_count := 1, n_x := 1, a_z := g exact\<rparr>)) = 0.000645442257"
    by (simp add: observer_block_eq observing_def globals_init_def
        k_flow_def g_def dt_def o_z_eq_def of_rat_divide of_rat_power)
  show ?thesis
    unfolding tick flow_seen_inputs using claimed code by simp
qed

text \<open>
  C4, amended. In internal-observer mode a tick advances each of the nine integrated
  variables by \<open>dt\<close> times its derivative. The residuals and the derivatives of
  \<open>o_x\<close>, \<open>o_y\<close>, \<open>o_z\<close>, \<open>psi\<close>, \<open>theta\<close>, \<open>phi\<close> and \<open>v_z\<close> are evaluated on the values
  that enter the observer (those of the previous tick, or zero after a reset) and on the
  measurements read on this tick; the derivative of \<open>v_x\<close> reads the pitch \<open>theta\<close>
  and that of \<open>v_y\<close> the roll \<open>phi\<close> already updated in this tick. The estimate is
  that of the forward Euler step with \<open>v_x\<close> and \<open>v_y\<close> replaced accordingly.
\<close>

theorem observer_step:
  fixes E :: "'f::{plus,minus,uminus,times,inverse,zero} firmware"
  assumes gate: "RATE_DO_EXECUTE E (ATTITUDE_RATE E) tick"
    and observer: "use_observer s"
  shows "let p = reset_block (read_inputs E sp sens s);
             s' = fst (controllerAE483 E sp sens st tick s) in
     n_x_err s' = k_flow E * ((v_x p / o_z_eq E) - w_y p) - n_x p
     \<and> n_y_err s' = k_flow E * (w_x p + (v_y p / o_z_eq E)) - n_y p
     \<and> r_err s' = o_z p - r p
     \<and> o_x s' = o_x p + dt E * v_x p
     \<and> o_y s' = o_y p + dt E * v_y p
     \<and> o_z s' = o_z p + dt E * (v_z p - flt E 3.524731 * r_err s')
     \<and> psi s' = psi p + dt E * w_z p
     \<and> theta s' = theta p + dt E * (w_y p - flt E 0.029925 * n_x_err s')
     \<and> phi s' = phi p + dt E * (w_x p - (- flt E 0.024252 * n_y_err s'))
     \<and> v_x s' = v_x p + dt E * (g E * theta s' - flt E 0.322134 * n_x_err s')
     \<and> v_y s' = v_y p + dt E * (- g E * phi s' - flt E 0.317070 * n_y_err s')
     \<and> v_z s' = v_z p + dt E * (a_z p - g E - flt E 5.676619 * r_err s')
     \<and> w_x p = radians E (x (gyro sens)) \<and> w_y p = radians E (y (gyro sens))
     \<and> w_z p = radians E (z (gyro sens)) \<and> a_z p = g E * z (acc sens)
     \<and> n_x p = flow_dpixelx s \<and> n_y p = flow_dpixely s \<and> r p = tof_distance s
     \<and> estimate_of
          (fst (controllerAE483 E sp sens st tick s)) =
        estimate_of
          ((forward_euler_step E p)
             \<lparr>v_x := v_x p + dt E * (g E * theta (forward_euler_step E p)
                       - flt E 0.322134 * n_x_err (forward_euler_step E p)),
              v_y := v_y p + dt E * (- g E * phi (forward_euler_step E p)
                       - flt E 0.317070 * n_y_err (forward_euler_step E p))\<rparr>)"
proof -
  define p where "p = reset_block (read_inputs E sp sens s)"
  have tick: "fst (controllerAE483 E sp sens st tick s) = fst (command_block E sp (observer_block E p))"
    unfolding observer_tick [OF gate observer] p_def ..
  have inputs: "w_x p = radians E (x (gyro sens))" "w_y p = radians E (y (gyro sens))"
    "w_z p = radians E (z (gyro sens))" "a_z p = g E * z (acc sens)"
    "n_x p = flow_dpixelx s" "n_y p = flow_dpixely s" "r p = tof_distance s"
    unfolding p_def by (simp_all add: reset_block_def read_inputs_eq Let_def)
  have fields:
    "n_x_err (observer_block E p) = k_flow E * ((v_x p / o_z_eq E) - w_y p) - n_x p"
    "n_y_err (observer_block E p) = k_flow E * (w_x p + (v_y p / o_z_eq E)) - n_y p"
    "r_err (observer_block E p) = o_z p - r p"
    "o_x (observer_block E p) = o_x p + dt E * v_x p"
    "o_y (observer_block E p) = o_y p + dt E * v_y p"
    "o_z (observer_block E p) = o_z p + dt E * (v_z p - flt E 3.524731 * r_err (observer_block E p))"
    "psi (observer_block E p) = psi p + dt E * w_z p"
    "theta (observer_block E p) =
       theta p + dt E * (w_y p - flt E 0.029925 * n_x_err (observer_block E p))"
    "phi (observer_block E p) =
       phi p + dt E * (w_x p - (- flt E 0.024252 * n_y_err (observer_block E p)))"
    "v_x (observer_block E p) =
       v_x p + dt E * (g E * theta (observer_block E p)
         - flt E 0.322134 * n_x_err (observer_block E p))"
    "v_y (observer_block E p) =
       v_y p + dt E * (- g E * phi (observer_block E p)
         - flt E 0.317070 * n_y_err (observer_block E p))"
    "v_z (observer_block E p) =
       v_z p + dt E * (a_z p - g E - flt E 5.676619 * r_err (observer_block E p))"
    by (simp_all add: observer_block_eq)
  have whole: "estimate_of (fst (command_block E sp (observer_block E p))) =
      estimate_of
        ((forward_euler_step E p)
           \<lparr>v_x := v_x p + dt E * (g E * theta (forward_euler_step E p)
                     - flt E 0.322134 * n_x_err (forward_euler_step E p)),
            v_y := v_y p + dt E * (- g E * phi (forward_euler_step E p)
                     - flt E 0.317070 * n_y_err (forward_euler_step E p))\<rparr>)"
    by (simp add: estimate_of_def command_block_keeps observer_block_eq forward_euler_step_def Let_def)
  show ?thesis
    unfolding p_def [symmetric] Let_def tick
    by (simp only: command_block_keeps command_block_residuals fields inputs whole simp_thms)
qed

theorem observer_step_witness:
  "RATE_DO_EXECUTE exact (ATTITUDE_RATE exact) 0 \<and> use_observer flow_seen
   \<and> n_x_err (fst (controllerAE483 exact (setpoint_at modeDisable 0 0 0) (sensors_at 0 0 0)
        (state_at 0 0 0) 0 flow_seen)) = - 1
   \<and> theta (fst (controllerAE483 exact (setpoint_at modeDisable 0 0 0) (sensors_at 0 0 0)
        (state_at 0 0 0) 0 flow_seen)) = 0.00005985
   \<and> v_x (fst (controllerAE483 exact (setpoint_at modeDisable 0 0 0) (sensors_at 0 0 0)
        (state_at 0 0 0) 0 flow_seen)) = 0.000645442257"
proof -
  let ?s' = "fst (controllerAE483 exact (setpoint_at modeDisable 0 0 0) (sensors_at 0 0 0)
        (state_at 0 0 0) 0 flow_seen)"
  let ?p = "observing\<lparr>flow_dpixelx := 1, flow_count := 1, n_x := 1, a_z := g exact\<rparr>"
  have use: "use_observer flow_seen"
    by (simp add: flow_seen_def Flow_frame observing_def)
  note step = observer_step [OF gate_exact use, of "setpoint_at modeDisable 0 0 0"
      "sensors_at 0 0 0" "state_at 0 0 0", unfolded Let_def flow_seen_inputs]
  from step have residual: "n_x_err ?s' = k_flow exact * ((v_x ?p / o_z_eq exact) - w_y ?p) - n_x ?p"
    by blast
  from step have angle: "theta ?s' = theta ?p + dt exact * (w_y ?p - flt exact 0.029925 * n_x_err ?s')"
    by blast
  from step have speed: "v_x ?s' = v_x ?p + dt exact * (g exact * theta ?s' - flt exact 0.322134 * n_x_err ?s')"
    by blast
  have r1: "n_x_err ?s' = - 1"
    unfolding residual
    by (simp add: observing_def globals_init_def k_flow_def o_z_eq_def of_rat_divide of_rat_power)
  have r2: "theta ?s' = 0.00005985"
    unfolding angle r1
    by (simp add: observing_def globals_init_def dt_def of_rat_divide of_rat_power)
  have r3: "v_x ?s' = 0.000645442257"
    unfolding speed r1 r2
    by (simp add: observing_def globals_init_def dt_def g_def of_rat_divide of_rat_power)
  from gate_exact use r1 r2 r3 show ?thesis by simp
qed

section \<open>Pass-through mode\<close>

lemma still_inputs:
  "reset_block (read_inputs exact (setpoint_at modeDisable 0 0 0) (sensors_at 0 0 0)
      (globals_init\<lparr>o_x := a, a_z := b\<rparr>))
   = globals_init\<lparr>o_x := a, a_z := g exact\<rparr>"
  by (simp add: read_inputs_eq reset_block_def globals_init_def setpoint_at_def sensors_at_def)

lemma still_passthrough:
  "passthrough_block exact (state_at px 0 0) (globals_init\<lparr>o_x := a, a_z := b\<rparr>)
   = globals_init\<lparr>o_x := px, a_z := b\<rparr>"
  by (simp add: passthrough_block_eq globals_init_def state_at_def)

lemma still_tick:
  assumes "RATE_DO_EXECUTE exact (ATTITUDE_RATE exact) tick"
  shows "fst (controllerAE483 exact (setpoint_at modeDisable 0 0 0) (sensors_at 0 0 0)
      (state_at px 0 0) tick (globals_init\<lparr>o_x := a, a_z := b\<rparr>))
    = globals_init\<lparr>o_x := px, a_z := g exact\<rparr>"
proof -
  have "\<not> use_observer (globals_init\<lparr>o_x := a, a_z := b\<rparr> :: real globals)"
    by (simp add: globals_init_def)
  note tick = passthrough_tick [OF assms this, of "setpoint_at modeDisable 0 0 0"
      "sensors_at 0 0 0" "state_at px 0 0"]
  show ?thesis
    unfolding tick still_inputs still_passthrough
    by (simp add: command_block_disabled setpoint_at_def)
qed

lemma globals_init_still: "globals_init\<lparr>o_x := 0, a_z := 0\<rparr> = (globals_init :: real globals)"
  by (simp add: globals_init_def)

text \<open>
  C5, as stated, fails: after a pass-through tick with the external position at
  \<open>x = 1\<close> the estimate has \<open>o_x = 1\<close>; after the next pass-through tick, with the
  external position at \<open>x = 2\<close>, it has \<open>o_x = 2\<close>, not the position of the previous
  estimate.
\<close>

theorem passthrough_position_replaced:
  "o_x (run exact
      [Control (setpoint_at modeDisable 0 0 0) (sensors_at 0 0 0) (state_at 1 0 0) 0]
      globals_init) = 1
   \<and> o_x (run exact
      [Control (setpoint_at modeDisable 0 0 0) (sensors_at 0 0 0) (state_at 1 0 0) 0,
       Control (setpoint_at modeDisable 0 0 0) (sensors_at 0 0 0) (state_at 2 0 0) 2]
      globals_init) = 2
   \<and> o_x (run exact
      [Control (setpoint_at modeDisable 0 0 0) (sensors_at 0 0 0) (state_at 1 0 0) 0,
       Control (setpoint_at modeDisable 0 0 0) (sensors_at 0 0 0) (state_at 2 0 0) 2]
      globals_init)
     \<noteq> o_x (run exact
      [Control (setpoint_at modeDisable 0 0 0) (sensors_at 0 0 0) (state_at 1 0 0) 0]
      globals_init)"
proof -
  have first: "fst (controllerAE483 exact (setpoint_at modeDisable 0 0 0) (sensors_at 0 0 0)
      (state_at 1 0 0) 0 globals_init) = globals_init\<lparr>o_x := 1, a_z := g exact\<rparr>"
    using still_tick [OF gate_exact, of 1 0 0] unfolding globals_init_still .
  have second: "fst (controllerAE483 exact (setpoint_at modeDisable 0 0 0) (sensors_at 0 0 0)
      (state_at 2 0 0) 2 (globals_init\<lparr>o_x := 1, a_z := g exact\<rparr>))
      = globals_init\<lparr>o_x := 2, a_z := g exact\<rparr>"
    by (rule still_tick [OF gate_exact_2])
  show ?thesis
    by (simp add: first second)
qed

text \<open>
  C5, amended. In pass-through mode every field of the new estimate, the position
  included, is recomputed on each tick from the external state and the gyro alone: the
  position is the external position, the attitude is the external yaw, minus the external
  pitch and the external roll in radians, the velocity is the external velocity rotated
  by these angles, and the angular velocity is the gyro in radians. Nothing of the
  previous estimate is read.
\<close>

theorem passthrough_estimate:
  fixes E :: "'f::{plus,minus,uminus,times,inverse,zero} firmware"
  assumes gate: "RATE_DO_EXECUTE E (ATTITUDE_RATE E) tick"
    and passthrough: "\<not> use_observer s"
  shows "let ps = radians E (yaw (attitude st));
             th = - radians E (pitch (attitude st));
             ph = radians E (roll (attitude st));
             vx = x (velocity st); vy = y (velocity st); vz = z (velocity st) in
     estimate_of (fst (controllerAE483 E sp sens st tick s)) =
       ((x (state_t.position st), y (state_t.position st), z (state_t.position st)),
        (ps, th, ph),
        (vx * cosf E ps * cosf E th + vy * sinf E ps * cosf E th - vz * sinf E th,
         vx * (sinf E ph * sinf E th * cosf E ps - sinf E ps * cosf E ph)
           + vy * (sinf E ph * sinf E ps * sinf E th + cosf E ph * cosf E ps)
           + vz * sinf E ph * cosf E th,
         vx * (sinf E ph * sinf E ps + sinf E th * cosf E ph * cosf E ps)
           + vy * (- sinf E ph * cosf E ps + sinf E ps * sinf E th * cosf E ph)
           + vz * cosf E ph * cosf E th),
        (radians E (x (gyro sens)), radians E (y (gyro sens)), radians E (z (gyro sens))))"
proof -
  have rates: "w_x (reset_block (read_inputs E sp sens s)) = radians E (x (gyro sens))"
    "w_y (reset_block (read_inputs E sp sens s)) = radians E (y (gyro sens))"
    "w_z (reset_block (read_inputs E sp sens s)) = radians E (z (gyro sens))"
    by (simp_all add: reset_block_def read_inputs_eq Let_def)
  show ?thesis
    unfolding passthrough_tick [OF gate passthrough] Let_def
    by (simp add: estimate_of_def command_block_keeps passthrough_block_eq rates)
qed

theorem passthrough_estimate_witness:
  "RATE_DO_EXECUTE exact (ATTITUDE_RATE exact) 0
   \<and> \<not> use_observer (globals_init\<lparr>o_x := 1, a_z := 0\<rparr> :: real globals)
   \<and> estimate_of (fst (controllerAE483 exact (setpoint_at modeDisable 0 0 0) (sensors_at 0 0 0)
        (state_at 2 0 0) 0 (globals_init\<lparr>o_x := 1, a_z := 0\<rparr>)))
      = ((2, 0, 0), (0, 0, 0), (0, 0, 0), (0, 0, 0))"
proof -
  have off: "\<not> use_observer (globals_init\<lparr>o_x := 1, a_z := 0\<rparr> :: real globals)"
    by (simp add: globals_init_def)
  from passthrough_estimate [OF gate_exact off, of "state_at 2 0 0"
      "setpoint_at modeDisable 0 0 0" "sensors_at 0 0 0"]
  have "estimate_of (fst (controllerAE483 exact (setpoint_at modeDisable 0 0 0) (sensors_at 0 0 0)
        (state_at 2 0 0) 0 (globals_init\<lparr>o_x := 1, a_z := 0\<rparr>)))
      = ((2, 0, 0), (0, 0, 0), (0, 0, 0), (0, 0, 0))"
    by (simp add: Let_def state_at_def sensors_at_def)
  with gate_exact off show ?thesis by simp
qed

section \<open>The inputs of each mode\<close>

lemma climbed_inputs:
  "read_inputs exact (setpoint_at modeDisable 0 0 0) (sensors_at 0 0 0) (climbed\<lparr>reset_observer := b\<rparr>)
   = climbed\<lparr>reset_observer := b, a_z := g exact\<rparr>"
  by (simp add: read_inputs_eq climbed_def observing_def globals_init_def
      setpoint_at_def sensors_at_def)

text \<open>
  C7, as stated, fails: two runs in internal-observer mode that agree on the previous
  estimate, the buffered range and flow, the gyro, the accelerometer and \<open>dt\<close>, and differ
  in the reset flag only, give different estimates (an altitude of 0.992950538 and of 0).
\<close>

theorem reset_flag_interferes:
  "use_observer climbed \<and> use_observer (climbed\<lparr>reset_observer := True\<rparr>)
   \<and> estimate_of climbed = estimate_of (climbed\<lparr>reset_observer := True\<rparr>)
   \<and> tof_distance climbed = tof_distance (climbed\<lparr>reset_observer := True\<rparr>)
   \<and> flow_dpixelx climbed = flow_dpixelx (climbed\<lparr>reset_observer := True\<rparr>)
   \<and> flow_dpixely climbed = flow_dpixely (climbed\<lparr>reset_observer := True\<rparr>)
   \<and> o_z (fst (controllerAE483 exact (setpoint_at modeDisable 0 0 0) (sensors_at 0 0 0)
        (state_at 0 0 0) 0 climbed)) = 0.992950538
   \<and> o_z (fst (controllerAE483 exact (setpoint_at modeDisable 0 0 0) (sensors_at 0 0 0)
        (state_at 0 0 0) 0 (climbed\<lparr>reset_observer := True\<rparr>))) = 0
   \<and> estimate_of (fst (controllerAE483 exact (setpoint_at modeDisable 0 0 0) (sensors_at 0 0 0)
        (state_at 0 0 0) 0 climbed))
     \<noteq> estimate_of (fst (controllerAE483 exact (setpoint_at modeDisable 0 0 0) (sensors_at 0 0 0)
        (state_at 0 0 0) 0 (climbed\<lparr>reset_observer := True\<rparr>)))"
proof -
  have same: "climbed = climbed\<lparr>reset_observer := False\<rparr>"
    by (simp add: climbed_def observing_def globals_init_def)
  have use: "use_observer (climbed\<lparr>reset_observer := b\<rparr>)" for b
    by (simp add: climbed_def observing_def)
  have tick: "fst (controllerAE483 exact (setpoint_at modeDisable 0 0 0) (sensors_at 0 0 0)
        (state_at 0 0 0) 0 (climbed\<lparr>reset_observer := b\<rparr>))
      = observer_block exact (reset_block (climbed\<lparr>reset_observer := b, a_z := g exact\<rparr>))" for b
    unfolding observer_tick [OF gate_exact use] climbed_inputs
    by (simp add: command_block_disabled setpoint_at_def)
  have kept: "o_z (observer_block exact (reset_block (climbed\<lparr>reset_observer := False, a_z := g exact\<rparr>)))
      = 0.992950538"
    by (simp add: observer_block_eq reset_block_def climbed_def observing_def globals_init_def
        dt_def of_rat_divide of_rat_power)
  have zeroed: "o_z (observer_block exact (reset_block (climbed\<lparr>reset_observer := True, a_z := g exact\<rparr>)))
      = 0"
    by (simp add: observer_block_eq reset_block_def Let_def climbed_def observing_def
        globals_init_def)
  have a: "o_z (fst (controllerAE483 exact (setpoint_at modeDisable 0 0 0) (sensors_at 0 0 0)
        (state_at 0 0 0) 0 climbed)) = 0.992950538"
    using tick [of False] kept same by simp
  have b: "o_z (fst (controllerAE483 exact (setpoint_at modeDisable 0 0 0) (sensors_at 0 0 0)
        (state_at 0 0 0) 0 (climbed\<lparr>reset_observer := True\<rparr>))) = 0"
    using tick [of True] zeroed by simp
  have c: "estimate_of (fst (controllerAE483 exact (setpoint_at modeDisable 0 0 0) (sensors_at 0 0 0)
        (state_at 0 0 0) 0 climbed))
     \<noteq> estimate_of (fst (controllerAE483 exact (setpoint_at modeDisable 0 0 0) (sensors_at 0 0 0)
        (state_at 0 0 0) 0 (climbed\<lparr>reset_observer := True\<rparr>)))"
    using a b by (auto simp: estimate_of_def)
  have d: "use_observer climbed" using use [of False] same by simp
  from a b c d use [of True] show ?thesis
    by (simp add: estimate_of_def)
qed

lemma observer_inputs:
  fixes E :: "'f::{plus,minus,uminus,times,inverse,zero} firmware"
  assumes "reset_observer s1 = reset_observer s2"
    and "estimate_of s1 = estimate_of s2"
    and "tof_distance s1 = tof_distance s2"
    and "flow_dpixelx s1 = flow_dpixelx s2"
    and "flow_dpixely s1 = flow_dpixely s2"
    and "gyro sens1 = gyro sens2"
    and "z (acc sens1) = z (acc sens2)"
  shows "estimate_of (observer_block E (reset_block (read_inputs E sp1 sens1 s1)))
    = estimate_of (observer_block E (reset_block (read_inputs E sp2 sens2 s2)))"
proof (cases "reset_observer s2")
  case True
  with assms show ?thesis
    by (simp add: estimate_of_def observer_block_eq reset_block_def read_inputs_eq Let_def)
next
  case False
  with assms show ?thesis
    by (simp add: estimate_of_def observer_block_eq reset_block_def read_inputs_eq Let_def)
qed

lemma passthrough_inputs:
  fixes E :: "'f::{plus,minus,uminus,times,inverse,zero} firmware"
  assumes "gyro sens1 = gyro sens2"
  shows "estimate_of (passthrough_block E st (reset_block (read_inputs E sp1 sens1 s1)))
    = estimate_of (passthrough_block E st (reset_block (read_inputs E sp2 sens2 s2)))"
  using assms
  by (simp add: estimate_of_def passthrough_block_eq reset_block_def read_inputs_eq Let_def)

text \<open>
  C7, amended. On ticks that run, two runs in internal-observer mode that agree on the
  previous estimate, the reset flag, the buffered range and flow, the gyro and the z
  accelerometer sample give the same estimate, whatever the external state, the setpoint
  and the other variables are; two runs in pass-through mode that agree on the external
  state and the gyro give the same estimate, whatever the previous estimate, the flags'
  history, the buffered measurements and the accelerometer are.
\<close>

theorem mode_noninterference:
  fixes E :: "'f::{plus,minus,uminus,times,inverse,zero} firmware"
  assumes gate1: "RATE_DO_EXECUTE E (ATTITUDE_RATE E) tick1"
    and gate2: "RATE_DO_EXECUTE E (ATTITUDE_RATE E) tick2"
  shows "(use_observer s1 \<and> use_observer s2
        \<and> reset_observer s1 = reset_observer s2
        \<and> estimate_of s1 = estimate_of s2
        \<and> tof_distance s1 = tof_distance s2
        \<and> flow_dpixelx s1 = flow_dpixelx s2 \<and> flow_dpixely s1 = flow_dpixely s2
        \<and> gyro sens1 = gyro sens2 \<and> z (acc sens1) = z (acc sens2)
      \<longrightarrow> estimate_of (fst (controllerAE483 E sp1 sens1 st1 tick1 s1))
          = estimate_of (fst (controllerAE483 E sp2 sens2 st2 tick2 s2)))
    \<and> (\<not> use_observer s1 \<and> \<not> use_observer s2
        \<and> st1 = st2 \<and> gyro sens1 = gyro sens2
      \<longrightarrow> estimate_of (fst (controllerAE483 E sp1 sens1 st1 tick1 s1))
          = estimate_of (fst (controllerAE483 E sp2 sens2 st2 tick2 s2)))"
proof (intro conjI impI)
  assume a: "use_observer s1 \<and> use_observer s2
        \<and> reset_observer s1 = reset_observer s2
        \<and> estimate_of s1 = estimate_of s2
        \<and> tof_distance s1 = tof_distance s2
        \<and> flow_dpixelx s1 = flow_dpixelx s2 \<and> flow_dpixely s1 = flow_dpixely s2
        \<and> gyro sens1 = gyro sens2 \<and> z (acc sens1) = z (acc sens2)"
  then have u1: "use_observer s1" and u2: "use_observer s2" by simp_all
  have "estimate_of (observer_block E (reset_block (read_inputs E sp1 sens1 s1)))
      = estimate_of (observer_block E (reset_block (read_inputs E sp2 sens2 s2)))"
    using a by (intro observer_inputs) simp_all
  then show "estimate_of (fst (controllerAE483 E sp1 sens1 st1 tick1 s1))
      = estimate_of (fst (controllerAE483 E sp2 sens2 st2 tick2 s2))"
    unfolding tick_estimate [OF gate1] tick_estimate [OF gate2] integrate_block_def
    using u1 u2 by simp
next
  assume a: "\<not> use_observer s1 \<and> \<not> use_observer s2 \<and> st1 = st2 \<and> gyro sens1 = gyro sens2"
  then have u1: "\<not> use_observer s1" and u2: "\<not> use_observer s2"
    and st: "st1 = st2" and gy: "gyro sens1 = gyro sens2" by simp_all
  have "estimate_of (passthrough_block E st2 (reset_block (read_inputs E sp1 sens1 s1)))
      = estimate_of (passthrough_block E st2 (reset_block (read_inputs E sp2 sens2 s2)))"
    using gy by (rule passthrough_inputs)
  then show "estimate_of (fst (controllerAE483 E sp1 sens1 st1 tick1 s1))
      = estimate_of (fst (controllerAE483 E sp2 sens2 st2 tick2 s2))"
    unfolding tick_estimate [OF gate1] tick_estimate [OF gate2] integrate_block_def st
    using u1 u2 by simp
qed

theorem mode_noninterference_witness:
  "RATE_DO_EXECUTE exact (ATTITUDE_RATE exact) 0 \<and> RATE_DO_EXECUTE exact (ATTITUDE_RATE exact) 2
   \<and> use_observer climbed \<and> use_observer (climbed\<lparr>tau_x := 1\<rparr>)
   \<and> estimate_of (fst (controllerAE483 exact (setpoint_at modeDisable 0 0 0) (sensors_at 0 0 0)
        (state_at 0 0 0) 0 climbed))
     = estimate_of (fst (controllerAE483 exact (setpoint_at modeAbs 1 1 1) (sensors_at 0 0 0)
        (state_at 5 5 5) 2 (climbed\<lparr>tau_x := 1\<rparr>)))
   \<and> \<not> use_observer (globals_init :: real globals)
   \<and> \<not> use_observer (globals_init\<lparr>o_x := 1, a_z := 0\<rparr> :: real globals)
   \<and> estimate_of (fst (controllerAE483 exact (setpoint_at modeDisable 0 0 0) (sensors_at 0 0 0)
        (state_at 2 0 0) 0 globals_init))
     = estimate_of (fst (controllerAE483 exact (setpoint_at modeAbs 1 1 1) (sensors_at 0 0 0)
        (state_at 2 0 0) 2 (globals_init\<lparr>o_x := 1, a_z := 0\<rparr>)))"
proof -
  have u: "use_observer climbed" "use_observer (climbed\<lparr>tau_x := 1\<rparr>)"
    "\<not> use_observer (globals_init :: real globals)"
    "\<not> use_observer (globals_init\<lparr>o_x := 1, a_z := 0\<rparr> :: real globals)"
    by (simp_all add: climbed_def observing_def globals_init_def)
  have same: "reset_observer climbed = reset_observer (climbed\<lparr>tau_x := 1\<rparr>)"
    "estimate_of climbed = estimate_of (climbed\<lparr>tau_x := 1\<rparr>)"
    "tof_distance climbed = tof_distance (climbed\<lparr>tau_x := 1\<rparr>)"
    "flow_dpixelx climbed = flow_dpixelx (climbed\<lparr>tau_x := 1\<rparr>)"
    "flow_dpixely climbed = flow_dpixely (climbed\<lparr>tau_x := 1\<rparr>)"
    by (simp_all add: estimate_of_def)
  from mode_noninterference [OF gate_exact gate_exact_2, of climbed "climbed\<lparr>tau_x := 1\<rparr>"
      "sensors_at 0 0 0" "sensors_at 0 0 0" "setpoint_at modeDisable 0 0 0" "state_at 0 0 0"
      "setpoint_at modeAbs 1 1 1" "state_at 5 5 5"] u same
  have observer: "estimate_of (fst (controllerAE483 exact (setpoint_at modeDisable 0 0 0) (sensors_at 0 0 0)
        (state_at 0 0 0) 0 climbed))
     = estimate_of (fst (controllerAE483 exact (setpoint_at modeAbs 1 1 1) (sensors_at 0 0 0)
        (state_at 5 5 5) 2 (climbed\<lparr>tau_x := 1\<rparr>)))"
    by blast
  from mode_noninterference [OF gate_exact gate_exact_2, of globals_init
      "globals_init\<lparr>o_x := 1, a_z := 0\<rparr>"
      "sensors_at 0 0 0" "sensors_at 0 0 0" "setpoint_at modeDisable 0 0 0" "state_at 2 0 0"
      "setpoint_at modeAbs 1 1 1" "state_at 2 0 0"] u
  have passthrough: "estimate_of (fst (controllerAE483 exact (setpoint_at modeDisable 0 0 0) (sensors_at 0 0 0)
        (state_at 2 0 0) 0 globals_init))
     = estimate_of (fst (controllerAE483 exact (setpoint_at modeAbs 1 1 1) (sensors_at 0 0 0)
        (state_at 2 0 0) 2 (globals_init\<lparr>o_x := 1, a_z := 0\<rparr>)))"
    by blast
  from gate_exact gate_exact_2 u observer passthrough show ?thesis
    by simp
qed

end
